theory Spec2Isabelle
  imports Complex_Main
begin

section \<open>Strings\<close>

text \<open>
  A string of the program is a \<^typ>\<open>string\<close>: the list of the bytes of its UTF-8
  encoding. Every ASCII character is one \<^typ>\<open>char\<close> below 128; a character outside
  ASCII (the emoji of the catalogue, say) is a run of bytes from 128 up.

  \<open>String.prototype.toLowerCase\<close> maps \<open>A\<close>..\<open>Z\<close> to \<open>a\<close>..\<open>z\<close>, leaves every other
  ASCII character alone and maps a character outside ASCII to characters outside ASCII,
  with two exceptions in all of Unicode: U+0130 (bytes \<open>C4 B0\<close>) becomes \<open>i\<close> followed
  by U+0307 (bytes \<open>CC 87\<close>), and U+212A (bytes \<open>E2 84 AA\<close>) becomes \<open>k\<close>. In UTF-8
  these byte runs are those two characters and nothing else.
\<close>

definition isUpper :: "char \<Rightarrow> bool" where
  "isUpper c \<longleftrightarrow> (65::nat) \<le> of_char c \<and> of_char c \<le> (90::nat)"

definition isLower :: "char \<Rightarrow> bool" where
  "isLower c \<longleftrightarrow> (97::nat) \<le> of_char c \<and> of_char c \<le> (122::nat)"

definition isDigit :: "char \<Rightarrow> bool" where
  "isDigit c \<longleftrightarrow> (48::nat) \<le> of_char c \<and> of_char c \<le> (57::nat)"

definition toLowerCase_char :: "char \<Rightarrow> char" where
  "toLowerCase_char c = (if isUpper c then char_of (of_char c + (32::nat)) else c)"

text \<open>
  \<open>toLowerCase\<close> as far as the ASCII characters of its result go: \<open>A\<close>..\<open>Z\<close> and the two
  exceptions are lower-cased; the bytes of every other character outside ASCII are left
  as they are, since whatever it lower-cases to is outside ASCII too. The only reader of
  the result, the normalizer, removes every byte outside \<open>a\<close>..\<open>z\<close> and \<open>0\<close>..\<open>9\<close>, so it
  computes what the source computes.
\<close>

function toLowerCase :: "string \<Rightarrow> string" where
  "toLowerCase [] = []"
| "toLowerCase (c # cs) =
     (if c = CHR 0xC4 \<and> take 1 cs = [CHR 0xB0]
      then CHR ''i'' # CHR 0xCC # CHR 0x87 # toLowerCase (drop 1 cs)
      else if c = CHR 0xE2 \<and> take 2 cs = [CHR 0x84, CHR 0xAA]
      then CHR ''k'' # toLowerCase (drop 2 cs)
      else toLowerCase_char c # toLowerCase cs)"
  by pat_completeness auto
termination
  by (relation "measure length") simp_all

section \<open>Ingredient normalization helper\<close>

text \<open>
  \<open>Ingredient\<close>: \<open>name\<close>, \<open>emoji\<close>. The emoji of an object built from a reply without
  one is \<open>undefined\<close>, which is \<^term>\<open>None\<close>.
\<close>

record Ingredient =
  name :: string
  emoji :: "string option"

text \<open>\<open>name.toLowerCase().replace(/[^a-z0-9]/g, '')\<close>\<close>

definition normalizeIngredientName :: "string \<Rightarrow> string" where
  "normalizeIngredientName nm = filter (\<lambda>c. isLower c \<or> isDigit c) (toLowerCase nm)"

text \<open>
  \<open>inventory.find(...) || null\<close>: the first entry whose normalized name is the
  normalized search name, \<^term>\<open>None\<close> for \<open>null\<close>. An entry is an object, hence truthy.
\<close>

definition findIngredientInInventory :: "string \<Rightarrow> Ingredient list \<Rightarrow> Ingredient option" where
  "findIngredientInInventory nm inventory =
     (let normalizedSearch = normalizeIngredientName nm
      in find (\<lambda>ing. normalizeIngredientName (name ing) = normalizedSearch) inventory)"

definition isDuplicateIngredient :: "string \<Rightarrow> Ingredient list \<Rightarrow> bool" where
  "isDuplicateIngredient nm inventory \<longleftrightarrow> findIngredientInInventory nm inventory \<noteq> None"

text \<open>
  The updater both \<open>executeAction\<close> and \<open>handleApprovedFunctionCalls\<close> hand to
  \<open>setInventory\<close>:
  \<open>prev => isDuplicateIngredient(newIngredient.name, prev) ? prev : [newIngredient, ...prev]\<close>.
\<close>

definition insertIngredient :: "Ingredient \<Rightarrow> Ingredient list \<Rightarrow> Ingredient list" where
  "insertIngredient newIngredient prev =
     (if isDuplicateIngredient (name newIngredient) prev then prev else newIngredient # prev)"

text \<open>The invariant of the inventory: no two entries with the same normalized name.\<close>

definition collisionFree :: "Ingredient list \<Rightarrow> bool" where
  "collisionFree inventory \<longleftrightarrow> distinct (map (\<lambda>ing. normalizeIngredientName (name ing)) inventory)"

section \<open>Types and constants\<close>

text \<open>The emoji the program writes itself, as their UTF-8 bytes.\<close>

definition crossMark :: string where
  "crossMark = [CHR 0xE2, CHR 0x9D, CHR 0x8C]"

definition checkMark :: string where
  "checkMark = [CHR 0xE2, CHR 0x9C, CHR 0x85]"

definition plate :: string where
  "plate = [CHR 0xF0, CHR 0x9F, CHR 0x8D, CHR 0xBD, CHR 0xEF, CHR 0xB8, CHR 0x8F]"

definition whiteFlag :: string where
  "whiteFlag = [CHR 0xF0, CHR 0x9F, CHR 0x8F, CHR 0xB3, CHR 0xEF, CHR 0xB8, CHR 0x8F]"

text \<open>\<open>KitchenAction\<close>: \<open>name\<close>, \<open>displayName\<close>, \<open>emoji\<close>.\<close>

record KitchenAction =
  aname :: string
  displayName :: string
  aemoji :: string

text \<open>
  The object \<open>{name, emoji}\<close> a combination produces: an ingredient, or, when the reply
  had no \<open>result_name\<close>, an object whose \<open>name\<close> is \<open>undefined\<close>.
\<close>

datatype produced = Named Ingredient | Nameless "string option"

definition producedName :: "produced \<Rightarrow> string option" where
  "producedName p = (case p of Named i \<Rightarrow> Some (name i) | Nameless e \<Rightarrow> None)"

definition producedEmoji :: "produced \<Rightarrow> string option" where
  "producedEmoji p = (case p of Named i \<Rightarrow> emoji i | Nameless e \<Rightarrow> e)"

text \<open>
  The \<open>result\<close> of a timeline entry is \<open>undefined\<close> (the field is absent), \<open>null\<close>
  (the attempt is outstanding) or what the combination produced.
\<close>

datatype result_slot = Absent | Pending | Done produced

text \<open>
  \<open>TimelineEntry\<close>: \<open>id\<close>, \<open>timestamp\<close>, \<open>text?\<close>, \<open>action?\<close>, \<open>ingredients?\<close>,
  \<open>result?\<close>; the verification narrations carry a \<open>type\<close> field too. A timestamp is
  the clock reading in milliseconds.
\<close>

record TimelineEntry =
  tid :: string
  timestamp :: nat
  ttext :: "string option"
  ttype :: "string option"
  taction :: "string option"
  ingredients :: "string list option"
  result :: result_slot

datatype OrderDifficulty = easy | intermediate | difficult

datatype OrderStatus = not_started | in_progress | completed | failed

text \<open>\<open>Order\<close>: \<open>id\<close>, \<open>name\<close>, \<open>emoji\<close>, \<open>difficulty\<close>, \<open>status\<close>, \<open>servedDish?\<close>.\<close>

record Order =
  oid :: string
  oname :: string
  oemoji :: string
  difficulty :: OrderDifficulty
  status :: OrderStatus
  servedDish :: "string option"

text \<open>
  ASCII white space, the part of \<open>\s\<close> a byte can be. The names white space is
  looked for in, the literals of \<open>COOKING_ACTIONS\<close>, are ASCII.
\<close>

definition isSpace :: "char \<Rightarrow> bool" where
  "isSpace c \<longleftrightarrow> of_char c = (32::nat) \<or> ((9::nat) \<le> of_char c \<and> of_char c \<le> (13::nat))"

text \<open>\<open>s.replace(/\s+/g, '_')\<close>: every maximal run of white space becomes one underscore.\<close>

function replaceSpaceRuns :: "string \<Rightarrow> string" where
  "replaceSpaceRuns [] = []"
| "replaceSpaceRuns (c # cs) =
     (if isSpace c then CHR ''_'' # replaceSpaceRuns (dropWhile isSpace cs)
      else c # replaceSpaceRuns cs)"
  by pat_completeness auto
termination
proof (relation "measure length")
  show "wf (measure length)" by simp
next
  fix c :: char and cs :: string
  have "length (dropWhile isSpace cs) \<le> length cs" by (rule length_dropWhile_le)
  then show "(dropWhile isSpace cs, c # cs) \<in> measure length" by simp
next
  fix c :: char and cs :: string
  show "(cs, c # cs) \<in> measure length" by simp
qed

text \<open>\<open>name.replace(/\s+/g, '_').replace(/[^a-zA-Z0-9_]/g, '')\<close>\<close>

definition sanitizeName :: "string \<Rightarrow> string" where
  "sanitizeName nm =
     filter (\<lambda>c. isLower c \<or> isUpper c \<or> isDigit c \<or> c = CHR ''_'') (replaceSpaceRuns nm)"

definition createAction :: "string \<Rightarrow> string \<Rightarrow> KitchenAction" where
  "createAction nm e = \<lparr>aname = sanitizeName nm, displayName = nm, aemoji = e\<rparr>"

definition COOKING_ACTIONS :: "KitchenAction list" where
  "COOKING_ACTIONS =
    [createAction ''temper tadka'' [CHR 0xF0, CHR 0x9F, CHR 0x94, CHR 0xA5],
     createAction ''stone grind'' [CHR 0xF0, CHR 0x9F, CHR 0xAA, CHR 0xA8],
     createAction ''ferment'' [CHR 0xF0, CHR 0x9F, CHR 0xAB, CHR 0xA7],
     createAction ''steam idli'' [CHR 0xF0, CHR 0x9F, CHR 0xA5, CHR 0x9F],
     createAction ''deep fry vada'' [CHR 0xF0, CHR 0x9F, CHR 0x8D, CHR 0xA9],
     createAction ''shallow fry'' [CHR 0xF0, CHR 0x9F, CHR 0x8D, CHR 0xB3],
     createAction ''dry roast'' [CHR 0xF0, CHR 0x9F, CHR 0xA5, CHR 0x98],
     createAction ''soak'' [CHR 0xF0, CHR 0x9F, CHR 0x92, CHR 0xA7],
     createAction ''pound'' [CHR 0xF0, CHR 0x9F, CHR 0x94, CHR 0xA8],
     createAction ''banana leaf wrap'' [CHR 0xF0, CHR 0x9F, CHR 0x8D, CHR 0x83],
     createAction ''simmer sambar'' [CHR 0xF0, CHR 0x9F, CHR 0x8D, CHR 0xB2],
     createAction ''boil'' [CHR 0xF0, CHR 0x9F, CHR 0xAB, CHR 0xA7],
     createAction ''chop'' [CHR 0xF0, CHR 0x9F, CHR 0x94, CHR 0xAA],
     createAction ''dice'' [CHR 0xF0, CHR 0x9F, CHR 0x94, CHR 0xAA],
     createAction ''mince'' [CHR 0xF0, CHR 0x9F, CHR 0x94, CHR 0xAA],
     createAction ''grate coconut'' [CHR 0xF0, CHR 0x9F, CHR 0xA5, CHR 0xA5],
     createAction ''peel'' [CHR 0xF0, CHR 0x9F, CHR 0xA5, CHR 0x94],
     createAction ''wash'' [CHR 0xF0, CHR 0x9F, CHR 0x92, CHR 0xA7],
     createAction ''extract tamarind'' [CHR 0xF0, CHR 0x9F, CHR 0x8D, CHR 0xB6],
     createAction ''squeeze lemon'' [CHR 0xF0, CHR 0x9F, CHR 0x8D, CHR 0x8B],
     createAction ''mix batter'' [CHR 0xF0, CHR 0x9F, CHR 0xA5, CHR 0xA3],
     createAction ''whisk'' [CHR 0xF0, CHR 0x9F, CHR 0xA5, CHR 0x84],
     createAction ''stir'' [CHR 0xF0, CHR 0x9F, CHR 0xA5, CHR 0x84],
     createAction ''combine'' [CHR 0xF0, CHR 0x9F, CHR 0xA5, CHR 0xA3],
     createAction ''toss'' [CHR 0xF0, CHR 0x9F, CHR 0xA5, CHR 0x97],
     createAction ''caramelize'' [CHR 0xF0, CHR 0x9F, CHR 0x8D, CHR 0xAF],
     createAction ''reduce'' [CHR 0xF0, CHR 0x9F, CHR 0x8D, CHR 0xB2],
     createAction ''infuse'' [CHR 0xF0, CHR 0x9F, CHR 0x8D, CHR 0xB5],
     createAction ''smoke'' [CHR 0xF0, CHR 0x9F, CHR 0x92, CHR 0xA8],
     createAction ''pickle'' [CHR 0xF0, CHR 0x9F, CHR 0xA5, CHR 0x92],
     createAction ''rest'' [CHR 0xE2, CHR 0x8F, CHR 0xB0],
     createAction ''serve on leaf'' [CHR 0xF0, CHR 0x9F, CHR 0x8D, CHR 0xBD, CHR 0xEF, CHR 0xB8, CHR 0x8F],
     createAction ''pass'' [CHR 0xF0, CHR 0x9F, CHR 0x8F, CHR 0xB3, CHR 0xEF, CHR 0xB8, CHR 0x8F]]"

text \<open>Decimal rendering of a clock reading, as a template literal renders \<open>Date.now()\<close>.\<close>

fun show_nat :: "nat \<Rightarrow> string" where
  "show_nat n =
     (if n < 10 then [char_of (48 + n)]
      else show_nat (n div 10) @ [char_of (48 + n mod 10)])"

text \<open>\<open>xs.join(sep)\<close>\<close>

fun join :: "string \<Rightarrow> string list \<Rightarrow> string" where
  "join sep [] = []"
| "join sep [x] = x"
| "join sep (x # y # ys) = x @ sep @ join sep (y # ys)"

section \<open>The kitchen state\<close>

text \<open>
  What is sent to the planning agent's session: a text message, or the structured
  response to a tool call (\<open>{success: true, message}\<close>, \<open>{success: true, result, emoji}\<close>
  or \<open>{success: false, error}\<close>). The \<open>result\<close> and \<open>emoji\<close> are the name and the emoji
  of what was produced, each \<open>undefined\<close> when that is.
\<close>

datatype response =
    SuccessMessage string
  | SuccessResult "string option" "string option"
  | Failure string

datatype message = TextPart string | FunctionResponse string response

text \<open>
  The state of \<open>KitchenAppContainer\<close> and of the agents' refs, with three logs that
  record the calls made to the outside: \<open>sent\<close> (every \<open>sendMessage\<close> to the planning
  agent's session), \<open>resolverCalls\<close> (every call of the combination resolver) and
  \<open>verifierCalls\<close> (every prompt submitted by the verification matcher). A \<open>Set\<close> of
  the source is a list in insertion order where the code iterates it and a set where
  it does not. Handlers run one at a time: no other handler runs while one awaits.
  \<open>renderError\<close> is the error of a state updater that threw: React runs an updater
  outside the handler that queued it, no code of the program catches what it throws,
  and the state it was to update stays as it was.
\<close>

record kitchen =
  inventory :: "Ingredient list"
  selectedIngredients :: "string list"
  timeline :: "TimelineEntry list"
  activeAction :: "string option"
  actionTriggerCount :: nat
  activeIngredients :: "string set"
  orders :: "Order list"
  isCooking :: bool
  pendingText :: "string option"
  sent :: "message list"
  resolverCalls :: "(KitchenAction \<times> string list) list"
  verifierCalls :: "string list"
  renderError :: "string option"

text \<open>
  Modelled from the spec: \<open>sendMessage\<close> of the agent chat session, whose source
  (\<open>gemini/contexts/GeminiAPIContext\<close>) is not among the files. The session takes the
  payload the orchestrator answers with; sending does not fail.
\<close>

definition sendMessage :: "message \<Rightarrow> kitchen \<Rightarrow> kitchen" where
  "sendMessage m w = w\<lparr>sent := sent w @ [m]\<rparr>"

text \<open>A narration entry \<open>{id, timestamp, text}\<close>.\<close>

definition narration :: "string \<Rightarrow> nat \<Rightarrow> string \<Rightarrow> TimelineEntry" where
  "narration i t txt =
     \<lparr>tid = i, timestamp = t, ttext = Some txt, ttype = None, taction = None,
      ingredients = None, result = Absent\<rparr>"

text \<open>
  A narration entry
  \<open>{id, type: 'text', action: '', ingredients: [], result: null, text, timestamp}\<close>.
\<close>

definition typedNarration :: "string \<Rightarrow> nat \<Rightarrow> string \<Rightarrow> TimelineEntry" where
  "typedNarration i t txt =
     \<lparr>tid = i, timestamp = t, ttext = Some txt, ttype = Some ''text'', taction = Some [],
      ingredients = Some [], result = Pending\<rparr>"

text \<open>
  \<open>prev.map(entry => entry.id === timelineId ? { ...entry, result: r } : entry)\<close>
\<close>

definition completeEntry :: "string \<Rightarrow> produced \<Rightarrow> TimelineEntry list \<Rightarrow> TimelineEntry list" where
  "completeEntry timelineId r prev =
     map (\<lambda>entry. if tid entry = timelineId then entry\<lparr>result := Done r\<rparr> else entry) prev"

definition errorIngredient :: Ingredient where
  "errorIngredient = \<lparr>name = ''error'', emoji = Some crossMark\<rparr>"

text \<open>
  \<open>setInventory(prev => isDuplicateIngredient(newIngredient.name, prev) ? prev
       : [newIngredient, ...prev])\<close> for what a combination produced. On an object without
  a name, \<open>normalizeIngredientName\<close> reads \<open>toLowerCase\<close> of \<open>undefined\<close>: the updater
  throws a \<open>TypeError\<close>.
\<close>

definition setInventoryWith :: "produced \<Rightarrow> kitchen \<Rightarrow> kitchen" where
  "setInventoryWith newIngredient w =
     (case newIngredient of
        Named i \<Rightarrow> w\<lparr>inventory := insertIngredient i (inventory w)\<rparr>
      | Nameless e \<Rightarrow> w\<lparr>renderError := Some ''TypeError''\<rparr>)"

declare show_nat.simps [simp del]

section \<open>Order ledger\<close>

text \<open>
  \<open>handlePickUp\<close>:
  \<open>setOrders(prev => prev.map(order => order.id === orderId
       ? { ...order, status: 'in_progress' } : order))\<close>.
\<close>

definition handlePickUp :: "string \<Rightarrow> kitchen \<Rightarrow> kitchen" where
  "handlePickUp orderId w =
     w\<lparr>orders := map (\<lambda>order. if oid order = orderId then order\<lparr>status := in_progress\<rparr> else order)
                      (orders w)\<rparr>"

text \<open>
  \<open>handleCookWithGemini\<close>: picks the order up when the order it is handed is
  \<open>not_started\<close>, sets \<open>isCooking\<close> and, when the planning agent's session is ready
  (\<open>sendCookingMessageRef.current\<close> is set), asks it to prepare the order. Opening the
  agent's panel is presentation and is not part of the state.
\<close>

definition handleCookWithGemini :: "bool \<Rightarrow> Order \<Rightarrow> kitchen \<Rightarrow> kitchen" where
  "handleCookWithGemini sessionReady order w =
     (let w1 = (if status order = not_started then handlePickUp (oid order) w else w);
          w2 = w1\<lparr>isCooking := True\<rparr>
      in if sessionReady then sendMessage (TextPart (''Please prepare: '' @ oname order)) w2
         else w2)"

text \<open>
  \<open>handleCookBatchWithGemini\<close>: every order whose id is the id of a selected order
  becomes \<open>in_progress\<close> in one update.
\<close>

definition handleCookBatchWithGemini :: "bool \<Rightarrow> Order list \<Rightarrow> kitchen \<Rightarrow> kitchen" where
  "handleCookBatchWithGemini sessionReady selectedOrders w =
     (let w1 = w\<lparr>orders := map (\<lambda>order. if list_ex (\<lambda>so. oid so = oid order) selectedOrders
                                            then order\<lparr>status := in_progress\<rparr> else order)
                                (orders w),
                  isCooking := True\<rparr>
      in if sessionReady
         then sendMessage (TextPart
                (''Vanakkam! Today we are preparing a grand feast! Please prepare the following items in sequence or together: ''
                 @ join '', '' (map oname selectedOrders)
                 @ ''. Serve each one on the banana leaf when ready.'')) w1
         else w1)"

text \<open>\<open>handlePass\<close>\<close>

definition handlePass :: "kitchen \<Rightarrow> kitchen" where
  "handlePass w =
     w\<lparr>orders := map (\<lambda>order. if status order = in_progress
                                then order\<lparr>status := failed, servedDish := Some ''Vanished''\<rparr>
                                else order) (orders w),
       isCooking := False\<rparr>"

section \<open>Combination resolver\<close>

text \<open>
  What \<open>generateContent\<close> followed by \<open>JSON.parse\<close> gives for a combination prompt: the
  service call fails, the text is not JSON, or it decodes to an object whose
  \<open>result_name\<close> and \<open>emoji\<close> may each be missing (a missing text is read as \<open>'{}'\<close>).
\<close>

datatype combination_reply =
    CServiceError
  | CMalformed
  | CDecoded "string option" "string option"

text \<open>
  \<open>executeCombination\<close>: the whole body is inside \<open>try\<close>, and the \<open>catch\<close> returns
  \<open>null\<close>. A decoded reply is returned as \<open>{name: result.result_name, emoji: result.emoji}\<close>
  whether or not it has the fields.
\<close>

definition combinationPrompt :: "KitchenAction \<Rightarrow> string list \<Rightarrow> string" where
  "combinationPrompt action ingredientNames =
     ''Action: '' @ displayName action @ [CHR 0x0A] @ ''Ingredients: ''
     @ join '', '' ingredientNames @ [CHR 0x0A, CHR 0x0A]
     @ ''What is the result in South Indian cuisine'' @ [CHR 0x3F]"

definition executeCombination ::
  "(string \<Rightarrow> combination_reply) \<Rightarrow> KitchenAction \<Rightarrow> string list \<Rightarrow> produced option" where
  "executeCombination generateContent action ingredientNames =
     (let prompt = combinationPrompt action ingredientNames
      in case generateContent prompt of
           CServiceError \<Rightarrow> None
         | CMalformed \<Rightarrow> None
         | CDecoded result_name e \<Rightarrow>
             Some (case result_name of
                     Some nm \<Rightarrow> Named \<lparr>name = nm, emoji = e\<rparr>
                   | None \<Rightarrow> Nameless e))"

section \<open>Verification matcher\<close>

text \<open>
  What \<open>generateContent\<close> followed by \<open>JSON.parse\<close> gives for a verification prompt: the
  service call fails, the text is not JSON, or it decodes to an object whose \<open>matches\<close>
  and \<open>confidence\<close> may each be missing (a missing text is read as \<open>'{}'\<close>). The
  confidence is the value of the double \<open>JSON.parse\<close> returns; no double lies between
  the double written \<open>0.7\<close> and 7/10, so for such a value being above the one is being
  above the other.
\<close>

datatype verification_reply =
    VServiceError
  | VMalformed
  | VDecoded "bool option" "real option"

text \<open>\<open>result.matches && result.confidence > 0.7\<close>; \<open>undefined\<close> is falsy and not above any number.\<close>

definition accepts :: "bool option \<Rightarrow> real option \<Rightarrow> bool" where
  "accepts m c \<longleftrightarrow> m = Some True \<and> (case c of None \<Rightarrow> False | Some x \<Rightarrow> x > 0.7)"

text \<open>A reply that the loop accepts: it decodes, and the decoded object passes the test.\<close>

definition accepted :: "verification_reply \<Rightarrow> bool" where
  "accepted r \<longleftrightarrow> (case r of VDecoded m c \<Rightarrow> accepts m c | _ \<Rightarrow> False)"

definition verificationPrompt :: "Order \<Rightarrow> string \<Rightarrow> string" where
  "verificationPrompt order servedDishName =
     ''Order: '' @ [CHR 0x22] @ oname order @ [CHR 0x22, CHR 0x0A] @ ''Served: '' @ [CHR 0x22]
     @ servedDishName @ [CHR 0x22, CHR 0x0A, CHR 0x0A] @ ''Is this valid South Indian cuisine''
     @ [CHR 0x3F]"

text \<open>\<open>servedIngredient?.emoji || checkMark\<close>: a missing or empty emoji is falsy.\<close>

definition servedEmoji :: "string \<Rightarrow> Ingredient list \<Rightarrow> string" where
  "servedEmoji servedDishName currentInventory =
     (case findIngredientInInventory servedDishName currentInventory of
        None \<Rightarrow> checkMark
      | Some ing \<Rightarrow>
          (case emoji ing of
             None \<Rightarrow> checkMark
           | Some em \<Rightarrow> if em = [] then checkMark else em))"

text \<open>The effect of an accepted match for \<open>order\<close>: the ledger update, the narration.\<close>

definition acceptOrder :: "nat \<Rightarrow> string \<Rightarrow> Order \<Rightarrow> kitchen \<Rightarrow> kitchen" where
  "acceptOrder t servedDishName order w =
     w\<lparr>orders := map (\<lambda>ord. if oid ord = oid order
                              then ord\<lparr>status := completed,
                                       oemoji := servedEmoji servedDishName (inventory w),
                                       servedDish := Some servedDishName\<rparr>
                              else ord) (orders w),
       timeline := timeline w @
         [typedNarration (''verify-'' @ show_nat t) t
            (checkMark @ '' Delicious! '' @ [CHR 0x22] @ servedDishName @ [CHR 0x22]
             @ '' is a perfect match for '' @ [CHR 0x22] @ oname order @ [CHR 0x22] @ ''.'')]\<rparr>"

text \<open>
  The \<open>for\<close> loop of \<open>verifyServedDishRef.current\<close> over the in-progress orders, with
  the code after the loop as its base case. The completion service is \<open>generateContent\<close>:
  its reply may depend on the prompt and on how many calls this verification has made
  before (\<open>k\<close>). An error in the \<open>try\<close> body is caught and the loop goes on.
\<close>

fun verifyLoop ::
  "(nat \<Rightarrow> string \<Rightarrow> verification_reply) \<Rightarrow> nat \<Rightarrow> string \<Rightarrow> nat \<Rightarrow> Order list \<Rightarrow> kitchen
     \<Rightarrow> bool \<times> kitchen" where
  "verifyLoop generateContent t servedDishName k [] w =
     (False, w\<lparr>timeline := timeline w @
        [typedNarration (''verify-fail-'' @ show_nat t) t
           (crossMark @ '' That'' @ [CHR 0x27] @ ''s not part of the current feast!'')]\<rparr>)"
| "verifyLoop generateContent t servedDishName k (order # rest) w =
     (let prompt = verificationPrompt order servedDishName;
          w1 = w\<lparr>verifierCalls := verifierCalls w @ [prompt]\<rparr>
      in case generateContent k prompt of
           VServiceError \<Rightarrow> verifyLoop generateContent t servedDishName (Suc k) rest w1
         | VMalformed \<Rightarrow> verifyLoop generateContent t servedDishName (Suc k) rest w1
         | VDecoded m c \<Rightarrow>
             if accepts m c then (True, acceptOrder t servedDishName order w1)
             else verifyLoop generateContent t servedDishName (Suc k) rest w1)"

text \<open>\<open>verifyServedDishRef.current\<close>; \<open>t\<close> is the clock reading when it logs.\<close>

definition verifyServedDish ::
  "(nat \<Rightarrow> string \<Rightarrow> verification_reply) \<Rightarrow> nat \<Rightarrow> string \<Rightarrow> kitchen \<Rightarrow> bool \<times> kitchen" where
  "verifyServedDish generateContent t servedDishName w =
     (let inProgressOrders = filter (\<lambda>ord. status ord = in_progress) (orders w)
      in if inProgressOrders = []
         then (True, w\<lparr>timeline := timeline w @
                 [typedNarration (''verify-noorder-'' @ show_nat t) t
                    (checkMark @ '' Served '' @ [CHR 0x22] @ servedDishName @ [CHR 0x22])]\<rparr>)
         else verifyLoop generateContent t servedDishName 0 inProgressOrders w)"

text \<open>
  \<open>handleVerifyServedDish\<close>; the first argument is \<open>verifyServedDishRef.current\<close>:
  \<^term>\<open>None\<close> for \<open>null\<close>, the completion service of the mounted matcher otherwise.
\<close>

definition handleVerifyServedDish ::
  "(nat \<Rightarrow> string \<Rightarrow> verification_reply) option \<Rightarrow> nat \<Rightarrow> string \<Rightarrow> kitchen \<Rightarrow> bool \<times> kitchen" where
  "handleVerifyServedDish verifyRef t servedDishName w =
     (case verifyRef of
        Some generateContent \<Rightarrow>
          (let (res, w1) = verifyServedDish generateContent t servedDishName w;
               remaining = filter (\<lambda>ord. status ord = in_progress) (orders w1)
           in (res, if remaining = [] then w1\<lparr>isCooking := False\<rparr> else w1))
      | None \<Rightarrow> (False, w\<lparr>isCooking := False\<rparr>))"

section \<open>Cooking orchestrator\<close>

text \<open>A promise: it rejects with an error (kept as \<open>String(error)\<close>) or resolves.\<close>

datatype 'a outcome = Rejects string | Resolves 'a

text \<open>
  What a handler reads from outside the state: the clock when it starts (\<open>now\<close>), the
  clock when the verification matcher logs (\<open>vnow\<close>), and the two late-bound refs.
  \<open>executeCombinationRef\<close> is \<^term>\<open>None\<close> for \<open>null\<close>, else a function of the declared
  type \<open>(action, ingredients) => Promise<Ingredient | null>\<close>. \<open>verifyServedDishRef\<close> is
  \<^term>\<open>None\<close> for \<open>null\<close>, else the completion service of the mounted matcher.
\<close>

record env =
  now :: nat
  vnow :: nat
  executeCombinationRef :: "(KitchenAction \<Rightarrow> string list \<Rightarrow> produced option outcome) option"
  verifyServedDishRef :: "(nat \<Rightarrow> string \<Rightarrow> verification_reply) option"

text \<open>
  The value the combination agent's effect stores in the ref:
  \<open>onExecuteActionRef.current = executeCombination\<close>.
\<close>

definition mountedResolver ::
  "(string \<Rightarrow> combination_reply)
     \<Rightarrow> (KitchenAction \<Rightarrow> string list \<Rightarrow> produced option outcome) option" where
  "mountedResolver generateContent =
     Some (\<lambda>action ingredientNames.
             Resolves (executeCombination generateContent action ingredientNames))"

text \<open>
  A tool call \<open>{name, args}\<close> with \<open>args\<close> read as \<open>{ingredients?, dish?}\<close>; a call
  without \<open>args\<close> has both absent (\<open>fc.args || {}\<close>).
\<close>

record FunctionCall =
  fc_name :: "string option"
  arg_ingredients :: "string list option"
  arg_dish :: "string option"

text \<open>
  The validation loop: for each requested name, in order, the inventory entry it
  resolves to is kept unless an entry with the same normalized name was kept before.
\<close>

fun validateLoop :: "Ingredient list \<Rightarrow> string list \<Rightarrow> string list \<Rightarrow> string list" where
  "validateLoop currentInventory [] validatedIngredients = validatedIngredients"
| "validateLoop currentInventory (requestedName # rest) validatedIngredients =
     validateLoop currentInventory rest
       (case findIngredientInInventory requestedName currentInventory of
          None \<Rightarrow> validatedIngredients
        | Some found \<Rightarrow>
            (let normalizedFound = normalizeIngredientName (name found)
             in if list_ex (\<lambda>v. normalizeIngredientName v = normalizedFound) validatedIngredients
                then validatedIngredients
                else validatedIngredients @ [name found]))"

definition validateIngredients :: "string list \<Rightarrow> Ingredient list \<Rightarrow> string list" where
  "validateIngredients requestedIngredients currentInventory =
     validateLoop currentInventory requestedIngredients []"

text \<open>The \<open>serve_on_leaf\<close> branch; \<open>args.dish || 'dish'\<close>.\<close>

definition serveCall :: "env \<Rightarrow> FunctionCall \<Rightarrow> kitchen \<Rightarrow> kitchen" where
  "serveCall e fc w =
     (let dishName = (case arg_dish fc of None \<Rightarrow> ''dish''
                      | Some d \<Rightarrow> if d = [] then ''dish'' else d);
          w1 = w\<lparr>timeline := timeline w @
                 [narration (''serve-'' @ show_nat (now e)) (now e)
                    (plate @ '' Serving on Banana Leaf: '' @ dishName)]\<rparr>;
          (verificationSuccess, w2) =
             handleVerifyServedDish (verifyServedDishRef e) (vnow e) dishName w1
      in sendMessage
           (FunctionResponse ''serve_on_leaf''
              (if verificationSuccess
               then SuccessMessage (dishName @ '' served! Romba nalla iruku!'')
               else Failure (dishName @ '' is not what was ordered. Try again!''))) w2)"

text \<open>The \<open>pass\<close> branch.\<close>

definition passCall :: "env \<Rightarrow> kitchen \<Rightarrow> kitchen" where
  "passCall e w =
     (let w1 = handlePass w;
          w2 = w1\<lparr>timeline := timeline w1 @
                 [narration (''pass-'' @ show_nat (now e)) (now e)
                    (whiteFlag @ '' Gave up on the order'')]\<rparr>
      in sendMessage (FunctionResponse ''pass'' (SuccessMessage ''Order abandoned.'')) w2)"

text \<open>
  The end of the \<open>try\<close> block once \<open>newIngredient\<close> is settled: the timeline entry is
  completed, the inventory updated, success reported.
\<close>

definition resolved :: "string \<Rightarrow> string \<Rightarrow> produced \<Rightarrow> kitchen \<Rightarrow> kitchen" where
  "resolved actionName timelineId newIngredient w =
     sendMessage
       (FunctionResponse actionName
          (SuccessResult (producedName newIngredient) (producedEmoji newIngredient)))
       (setInventoryWith newIngredient
          (w\<lparr>timeline := completeEntry timelineId newIngredient (timeline w)\<rparr>))"

text \<open>The \<open>catch\<close> block.\<close>

definition caught :: "string \<Rightarrow> string \<Rightarrow> string \<Rightarrow> kitchen \<Rightarrow> kitchen" where
  "caught actionName timelineId err w =
     sendMessage (FunctionResponse actionName (Failure err))
       (w\<lparr>timeline := completeEntry timelineId (Named errorIngredient) (timeline w)\<rparr>)"

text \<open>\<open>{ name: `${action.displayName}ed items`, emoji: action.emoji }\<close>\<close>

definition fallbackIngredient :: "KitchenAction \<Rightarrow> Ingredient" where
  "fallbackIngredient action =
     \<lparr>name = displayName action @ ''ed items'', emoji = Some (aemoji action)\<rparr>"

text \<open>
  The \<open>try\<close>/\<open>catch\<close> statement. The resolver is called only when the ref is set; a
  \<open>null\<close> from it, like an unset ref, leaves \<open>newIngredient\<close> null, which
  \<open>if (!newIngredient)\<close> replaces by the fallback ingredient.
\<close>

definition tryResolve ::
  "env \<Rightarrow> KitchenAction \<Rightarrow> string \<Rightarrow> string \<Rightarrow> string list \<Rightarrow> kitchen \<Rightarrow> kitchen" where
  "tryResolve e action actionName timelineId validatedIngredients w =
     (case executeCombinationRef e of
        None \<Rightarrow> resolved actionName timelineId (Named (fallbackIngredient action)) w
      | Some resolve \<Rightarrow>
          (let w1 = w\<lparr>resolverCalls := resolverCalls w @ [(action, validatedIngredients)]\<rparr>
           in case resolve action validatedIngredients of
                Rejects err \<Rightarrow> caught actionName timelineId err w1
              | Resolves None \<Rightarrow>
                  resolved actionName timelineId (Named (fallbackIngredient action)) w1
              | Resolves (Some newIngredient) \<Rightarrow> resolved actionName timelineId newIngredient w1))"

text \<open>\<open>text: pendingText || undefined\<close>\<close>

definition orUndefined :: "string option \<Rightarrow> string option" where
  "orUndefined t = (case t of None \<Rightarrow> None | Some s \<Rightarrow> if s = [] then None else Some s)"

text \<open>
  The entry appended before the resolver is called:
  \<open>{id: timelineId, timestamp, text, action, ingredients, result: null}\<close>.
\<close>

definition loadingEntry ::
  "string \<Rightarrow> nat \<Rightarrow> string option \<Rightarrow> string \<Rightarrow> string list \<Rightarrow> TimelineEntry" where
  "loadingEntry timelineId t txt actionName ingredientNames =
     \<lparr>tid = timelineId, timestamp = t, ttext = txt, ttype = None,
      taction = Some actionName, ingredients = Some ingredientNames, result = Pending\<rparr>"

text \<open>Every other tool name: a regular action, or an unknown one.\<close>

definition regularCall :: "env \<Rightarrow> string \<Rightarrow> FunctionCall \<Rightarrow> kitchen \<Rightarrow> kitchen" where
  "regularCall e actionName fc w =
     (let requestedIngredients = (case arg_ingredients fc of None \<Rightarrow> [] | Some xs \<Rightarrow> xs);
          timelineId = ''cooking-'' @ show_nat (now e)
      in case find (\<lambda>a. aname a = actionName) COOKING_ACTIONS of
           None \<Rightarrow>
             sendMessage
               (FunctionResponse actionName (Failure (''Unknown action: '' @ actionName))) w
         | Some action \<Rightarrow>
             (let validatedIngredients = validateIngredients requestedIngredients (inventory w)
              in if validatedIngredients = [] \<and> requestedIngredients \<noteq> []
                 then sendMessage
                        (FunctionResponse actionName (Failure ''Ingredients missing from pantry.'')) w
                 else
                   (let w1 = w\<lparr>pendingText := None,
                               timeline := timeline w @
                                 [loadingEntry timelineId (now e) (orUndefined (pendingText w))
                                    actionName validatedIngredients],
                               activeAction := Some actionName,
                               actionTriggerCount := actionTriggerCount w + 1,
                               activeIngredients := set validatedIngredients\<rparr>;
                        w2 = tryResolve e action actionName timelineId validatedIngredients w1
                    in w2\<lparr>activeAction := None, activeIngredients := {}\<rparr>)))"

text \<open>\<open>handleApprovedFunctionCalls\<close>: only the first call of the event is handled.\<close>

definition handleApprovedFunctionCalls :: "env \<Rightarrow> FunctionCall list \<Rightarrow> kitchen \<Rightarrow> kitchen" where
  "handleApprovedFunctionCalls e functionCalls w =
     (case functionCalls of
        [] \<Rightarrow> w
      | fc # _ \<Rightarrow>
          (let actionName = (case fc_name fc of None \<Rightarrow> [] | Some n \<Rightarrow> n)
           in if actionName = ''serve_on_leaf'' then serveCall e fc w
              else if actionName = ''pass'' then passCall e w
              else regularCall e actionName fc w))"

section \<open>Manual actions\<close>

text \<open>
  \<open>executeAction\<close> of the combination agent, which calls \<open>executeCombination\<close> itself
  (\<open>generateContent\<close> is its completion service) and does not await \<open>onServe\<close>.
\<close>

definition executeAction ::
  "(string \<Rightarrow> combination_reply) \<Rightarrow> env \<Rightarrow> KitchenAction \<Rightarrow> kitchen \<Rightarrow> kitchen" where
  "executeAction generateContent e action w =
     (case selectedIngredients w of
        [] \<Rightarrow> w
      | dishName # _ \<Rightarrow>
          (let ingredientNames = selectedIngredients w;
               w0 = w\<lparr>selectedIngredients := []\<rparr>
           in if aname action = ''serve_on_leaf''
              then
                (let w1 = w0\<lparr>timeline := timeline w0 @
                            [typedNarration (''serve-'' @ show_nat (now e)) (now e)
                               (plate @ '' Served on Banana Leaf: '' @ dishName)]\<rparr>
                 in snd (handleVerifyServedDish (verifyServedDishRef e) (vnow e) dishName w1))
              else
                (let timelineId = show_nat (now e);
                     w1 = w0\<lparr>timeline := timeline w0 @
                               [loadingEntry timelineId (now e) None (aname action)
                                  ingredientNames],
                             activeAction := Some (aname action),
                             resolverCalls := resolverCalls w0 @ [(action, ingredientNames)]\<rparr>;
                     w2 = (case executeCombination generateContent action ingredientNames of
                             Some newIngredient \<Rightarrow>
                               setInventoryWith newIngredient
                                 (w1\<lparr>timeline :=
                                       completeEntry timelineId newIngredient (timeline w1)\<rparr>)
                           | None \<Rightarrow>
                               w1\<lparr>timeline :=
                                    completeEntry timelineId (Named errorIngredient) (timeline w1)\<rparr>)
                 in w2\<lparr>activeAction := None\<rparr>)))"

section \<open>A concrete kitchen\<close>

text \<open>
  Two entries of \<open>STARTING_INGREDIENTS\<close>, two of \<open>EXAMPLE_ORDERS\<close>, and the state
  \<open>KitchenAppContainer\<close> starts from when the catalogue is cut down to them.
\<close>

definition ponniRice :: Ingredient where
  "ponniRice = \<lparr>name = ''ponni rice'', emoji = Some [CHR 0xF0, CHR 0x9F, CHR 0x8C, CHR 0xBE]\<rparr>"

definition uradDal :: Ingredient where
  "uradDal = \<lparr>name = ''urad dal'', emoji = Some [CHR 0xE2, CHR 0x9A, CHR 0xAA]\<rparr>"

definition filterCoffee :: Order where
  "filterCoffee =
     \<lparr>oid = ''order-1'', oname = ''Filter Coffee'', oemoji = [CHR 0xE2, CHR 0x98, CHR 0x95],
      difficulty = easy, status = not_started, servedDish = None\<rparr>"

definition masalaDosa :: Order where
  "masalaDosa =
     \<lparr>oid = ''order-4'', oname = ''Masala Dosa'',
      oemoji = [CHR 0xF0, CHR 0x9F, CHR 0xA5, CHR 0x9E],
      difficulty = difficult, status = not_started, servedDish = None\<rparr>"

definition smallKitchen :: kitchen where
  "smallKitchen =
     \<lparr>inventory = [ponniRice, uradDal], selectedIngredients = [], timeline = [],
      activeAction = None, actionTriggerCount = 0, activeIngredients = {},
      orders = [filterCoffee, masalaDosa], isCooking = False, pendingText = None,
      sent = [], resolverCalls = [], verifierCalls = [], renderError = None\<rparr>"

text \<open>The same kitchen after a batch pick-up of both orders.\<close>

definition busyKitchen :: kitchen where
  "busyKitchen = smallKitchen\<lparr>orders := [filterCoffee\<lparr>status := in_progress\<rparr>,
                                          masalaDosa\<lparr>status := in_progress\<rparr>],
                             isCooking := True\<rparr>"

text \<open>The \<open>stone grind\<close> entry of \<open>COOKING_ACTIONS\<close>.\<close>

definition stoneGrind :: KitchenAction where
  "stoneGrind = \<lparr>aname = ''stone_grind'', displayName = ''stone grind'',
                 aemoji = [CHR 0xF0, CHR 0x9F, CHR 0xAA, CHR 0xA8]\<rparr>"

text \<open>
  Completion services for combinations: one that is down, one whose text is not JSON,
  and one that answers every prompt with idli batter.
\<close>

definition serviceDown :: "string \<Rightarrow> combination_reply" where
  "serviceDown prompt = CServiceError"

definition serviceGarbled :: "string \<Rightarrow> combination_reply" where
  "serviceGarbled prompt = CMalformed"

definition idliBatterService :: "string \<Rightarrow> combination_reply" where
  "idliBatterService prompt =
     CDecoded (Some ''Idli Batter'') (Some [CHR 0xF0, CHR 0x9F, CHR 0xA5, CHR 0xA3])"

text \<open>
  Judges: one whose service fails on every call, one that accepts the first order it is
  asked about with confidence 0.9, one whose first call fails and whose second accepts.
\<close>

definition judgeDown :: "nat \<Rightarrow> string \<Rightarrow> verification_reply" where
  "judgeDown k prompt = VServiceError"

definition judgeFirst :: "nat \<Rightarrow> string \<Rightarrow> verification_reply" where
  "judgeFirst k prompt =
     (if k = 0 then VDecoded (Some True) (Some 0.9) else VDecoded (Some False) (Some 0.1))"

definition judgeSecond :: "nat \<Rightarrow> string \<Rightarrow> verification_reply" where
  "judgeSecond k prompt = (if k = 0 then VServiceError else VDecoded (Some True) (Some 0.9))"

definition downEnv :: env where
  "downEnv = \<lparr>now = 7, vnow = 8, executeCombinationRef = mountedResolver serviceDown,
              verifyServedDishRef = Some judgeDown\<rparr>"

definition garbledEnv :: env where
  "garbledEnv = \<lparr>now = 7, vnow = 8, executeCombinationRef = mountedResolver serviceGarbled,
                 verifyServedDishRef = Some judgeDown\<rparr>"

definition idliEnv :: env where
  "idliEnv = \<lparr>now = 7, vnow = 8, executeCombinationRef = mountedResolver idliBatterService,
              verifyServedDishRef = Some judgeDown\<rparr>"

text \<open>Before the combination agent has stored its resolver, the ref is \<open>null\<close>.\<close>

definition unmountedEnv :: env where
  "unmountedEnv = \<lparr>now = 7, vnow = 8, executeCombinationRef = None,
                   verifyServedDishRef = Some judgeDown\<rparr>"

definition stoneGrindCall :: "string list option \<Rightarrow> FunctionCall" where
  "stoneGrindCall args =
     \<lparr>fc_name = Some ''stone_grind'', arg_ingredients = args, arg_dish = None\<rparr>"

definition passCallRequest :: FunctionCall where
  "passCallRequest = \<lparr>fc_name = Some ''pass'', arg_ingredients = None, arg_dish = None\<rparr>"

definition serveCallRequest :: "string option \<Rightarrow> FunctionCall" where
  "serveCallRequest d = \<lparr>fc_name = Some ''serve_on_leaf'', arg_ingredients = None, arg_dish = d\<rparr>"

section \<open>Properties of the normalizer and the inventory\<close>







lemma find_None_normalized:
  "findIngredientInInventory nm ivt = None \<longleftrightarrow>
     (\<forall>ing \<in> set ivt. normalizeIngredientName (name ing) \<noteq> normalizeIngredientName nm)"
  by (auto simp: findIngredientInInventory_def find_None_iff)

lemma isDuplicate_iff:
  "isDuplicateIngredient nm ivt \<longleftrightarrow>
     (\<exists>ing \<in> set ivt. normalizeIngredientName (name ing) = normalizeIngredientName nm)"
  by (auto simp: isDuplicateIngredient_def find_None_normalized)


text \<open>
  C6. Inserting an ingredient whose normalized name is that of an entry returns the
  inventory as it is; inserting twice is inserting once; and insertion keeps an
  inventory free of collisions.
\<close>

theorem insertIngredient_idempotent:
  "((\<exists>e \<in> set ivt. normalizeIngredientName (name e) = normalizeIngredientName (name new))
      \<longrightarrow> insertIngredient new ivt = ivt)
   \<and> insertIngredient new (insertIngredient new ivt) = insertIngredient new ivt
   \<and> (collisionFree ivt \<longrightarrow> collisionFree (insertIngredient new ivt))"
  by (auto simp: insertIngredient_def isDuplicate_iff collisionFree_def)

section \<open>Properties of the order ledger\<close>

text \<open>
  C2, as the code has it. \<open>handlePickUp\<close> has no guard: every order with the given id
  becomes \<open>in_progress\<close> whatever its status, every other order is untouched, and a
  second pick-up changes nothing. The guard is in the callers: \<open>handleCookWithGemini\<close>
  picks up only an order it is handed as \<open>not_started\<close> and leaves the ledger as it
  is for any other status.
\<close>

theorem pickup_unguarded:
  "length (orders (handlePickUp i w)) = length (orders w)
   \<and> (\<forall>k < length (orders w).
         (oid (orders w ! k) = i \<longrightarrow>
            orders (handlePickUp i w) ! k = (orders w ! k)\<lparr>status := in_progress\<rparr>)
       \<and> (oid (orders w ! k) \<noteq> i \<longrightarrow> orders (handlePickUp i w) ! k = orders w ! k))
   \<and> handlePickUp i (handlePickUp i w) = handlePickUp i w
   \<and> (status order = not_started \<longrightarrow>
         orders (handleCookWithGemini ready order w) = orders (handlePickUp (oid order) w))
   \<and> (status order \<noteq> not_started \<longrightarrow> orders (handleCookWithGemini ready order w) = orders w)"
proof (intro conjI)
  show "handlePickUp i (handlePickUp i w) = handlePickUp i w"
    by (simp add: handlePickUp_def comp_def cong: map_cong)
qed (simp_all add: handlePickUp_def handleCookWithGemini_def sendMessage_def Let_def)

section \<open>Properties of the verification matcher\<close>

lemma verifyLoop_step:
  "verifyLoop g t d k (order # rest) w =
     (if accepted (g k (verificationPrompt order d))
      then (True, acceptOrder t d order
                    (w\<lparr>verifierCalls := verifierCalls w @ [verificationPrompt order d]\<rparr>))
      else verifyLoop g t d (Suc k) rest
             (w\<lparr>verifierCalls := verifierCalls w @ [verificationPrompt order d]\<rparr>))"
  by (simp add: accepted_def Let_def split: verification_reply.splits)

lemma verifyLoop_none:
  assumes "\<forall>j < length os. \<not> accepted (g (k + j) (verificationPrompt (os ! j) d))"
  shows "verifyLoop g t d k os w =
           (False, w\<lparr>verifierCalls := verifierCalls w @ map (\<lambda>ord. verificationPrompt ord d) os,
                      timeline := timeline w @
                        [typedNarration (''verify-fail-'' @ show_nat t) t
                           (crossMark @ '' That'' @ [CHR 0x27]
                            @ ''s not part of the current feast!'')]\<rparr>)"
  using assms
proof (induction os arbitrary: k w)
  case Nil
  show ?case by simp
next
  case (Cons a os)
  have first: "\<not> accepted (g k (verificationPrompt a d))"
    using Cons.prems by force
  have later: "\<forall>j < length os. \<not> accepted (g (Suc k + j) (verificationPrompt (os ! j) d))"
    using Cons.prems by force
  show ?case
    unfolding verifyLoop_step using first Cons.IH[OF later] by simp
qed

lemma verifyLoop_first:
  assumes "i < length os"
    and "accepted (g (k + i) (verificationPrompt (os ! i) d))"
    and "\<forall>j < i. \<not> accepted (g (k + j) (verificationPrompt (os ! j) d))"
  shows "verifyLoop g t d k os w =
           (True, acceptOrder t d (os ! i)
                    (w\<lparr>verifierCalls := verifierCalls w @
                         map (\<lambda>ord. verificationPrompt ord d) (take (Suc i) os)\<rparr>))"
  using assms
proof (induction os arbitrary: k i w)
  case Nil
  then show ?case by simp
next
  case (Cons a os)
  show ?case
  proof (cases i)
    case 0
    with Cons.prems show ?thesis unfolding verifyLoop_step by simp
  next
    case (Suc n)
    have first: "\<not> accepted (g k (verificationPrompt a d))"
      using Cons.prems(3) Suc by force
    have n: "n < length os" using Cons.prems(1) Suc by simp
    have acc: "accepted (g (Suc k + n) (verificationPrompt (os ! n) d))"
      using Cons.prems(2) Suc by simp
    have before: "\<forall>j < n. \<not> accepted (g (Suc k + j) (verificationPrompt (os ! j) d))"
      using Cons.prems(3) Suc by force
    show ?thesis
      unfolding verifyLoop_step using first Suc Cons.IH[OF n acc before] by simp
  qed
qed

lemma timeline_verifyLoop:
  "\<exists>entry. timeline (snd (verifyLoop g t d k os w)) = timeline w @ [entry]"
proof (induction os arbitrary: k w)
  case Nil
  show ?case by simp
next
  case (Cons a os)
  let ?w1 = "w\<lparr>verifierCalls := verifierCalls w @ [verificationPrompt a d]\<rparr>"
  from Cons.IH[of "Suc k" ?w1] show ?case
    unfolding verifyLoop_step by (auto simp: acceptOrder_def)
qed

lemma verifyServedDish_loop:
  assumes "filter (\<lambda>ord. status ord = in_progress) (orders w) \<noteq> []"
  shows "verifyServedDish g t d w =
           verifyLoop g t d 0 (filter (\<lambda>ord. status ord = in_progress) (orders w)) w"
  using assms by (simp add: verifyServedDish_def Let_def)

lemma map_only_id:
  assumes "distinct (map oid (before @ winner # after))"
  shows "map (\<lambda>ord. if oid ord = oid winner then f ord else ord) (before @ winner # after)
           = before @ f winner # after"
proof -
  have "oid winner \<notin> oid ` set before" and "oid winner \<notin> oid ` set after"
    using assms by auto
  then have "\<forall>ord \<in> set before \<union> set after. oid ord \<noteq> oid winner"
    by (metis Un_iff imageI)
  then have "map (\<lambda>ord. if oid ord = oid winner then f ord else ord) before = before"
    and "map (\<lambda>ord. if oid ord = oid winner then f ord else ord) after = after"
    by (simp_all add: map_idI)
  then show ?thesis by simp
qed

text \<open>
  C4. Let the \<open>i\<close>-th in-progress order, in ledger order, be the first whose reply is
  accepted, the reply being \<open>matches = true\<close> with a confidence above 0.7. Then
  verification returns true; every order with that order's id becomes \<open>completed\<close>
  with \<open>servedDish\<close> the served name, and every order with another id is as before;
  the service has been asked about the first \<open>i + 1\<close> in-progress orders and no
  further. An order is its id to the code: when the ids of the ledger are distinct, the
  accepted order alone changes and the ledger has exactly one more completed order.
\<close>

theorem first_match_completes:
  assumes "inProgress = filter (\<lambda>ord. status ord = in_progress) (orders w)"
    and "i < length inProgress"
    and "g i (verificationPrompt (inProgress ! i) d) = VDecoded (Some True) (Some c)"
    and "c > 0.7"
    and "\<forall>j < i. \<not> accepted (g j (verificationPrompt (inProgress ! j) d))"
  shows "let verdict = verifyServedDish g t d w;
             w' = snd verdict;
             winner = inProgress ! i;
             complete = (\<lambda>ord. ord\<lparr>status := completed,
                                     oemoji := servedEmoji d (inventory w),
                                     servedDish := Some d\<rparr>)
         in fst verdict
          \<and> length (orders w') = length (orders w)
          \<and> (\<forall>k < length (orders w).
                orders w' ! k = (if oid (orders w ! k) = oid winner
                                 then complete (orders w ! k) else orders w ! k))
          \<and> verifierCalls w' = verifierCalls w @
                map (\<lambda>ord. verificationPrompt ord d) (take (Suc i) inProgress)
          \<and> inventory w' = inventory w
          \<and> (distinct (map oid (orders w)) \<longrightarrow>
                (\<exists>before after. orders w = before @ winner # after
                                 \<and> orders w' = before @ complete winner # after)
              \<and> length (filter (\<lambda>ord. status ord = completed) (orders w'))
                  = Suc (length (filter (\<lambda>ord. status ord = completed) (orders w))))"
proof -
  let ?winner = "inProgress ! i"
  let ?f = "\<lambda>ord. ord\<lparr>status := completed, oemoji := servedEmoji d (inventory w),
                        servedDish := Some d\<rparr>"
  let ?calls = "verifierCalls w @ map (\<lambda>ord. verificationPrompt ord d) (take (Suc i) inProgress)"
  let ?w' = "acceptOrder t d ?winner (w\<lparr>verifierCalls := ?calls\<rparr>)"
  have ne: "filter (\<lambda>ord. status ord = in_progress) (orders w) \<noteq> []"
    using assms(1,2) by auto
  have acc: "accepted (g (0 + i) (verificationPrompt (inProgress ! i) d))"
    using assms(3,4) by (simp add: accepted_def accepts_def)
  have before: "\<forall>j < i. \<not> accepted (g (0 + j) (verificationPrompt (inProgress ! j) d))"
    using assms(5) by simp
  have run: "verifyServedDish g t d w = (True, ?w')"
    unfolding verifyServedDish_loop[OF ne] assms(1)[symmetric]
    by (rule verifyLoop_first[OF assms(2) acc before])
  have mapped: "orders ?w' = map (\<lambda>ord. if oid ord = oid ?winner then ?f ord else ord) (orders w)"
    by (simp add: acceptOrder_def)
  have "?winner \<in> set inProgress" using assms(2) by simp
  then have mem: "?winner \<in> set (orders w)" and st: "status ?winner = in_progress"
    using assms(1) by auto
  have unique: "(\<exists>bs as. orders w = bs @ ?winner # as \<and> orders ?w' = bs @ ?f ?winner # as)
              \<and> length (filter (\<lambda>ord. status ord = completed) (orders ?w'))
                  = Suc (length (filter (\<lambda>ord. status ord = completed) (orders w)))"
    if dist: "distinct (map oid (orders w))"
  proof -
    from mem obtain bs as where split: "orders w = bs @ ?winner # as"
      by (auto dest: split_list)
    have d: "distinct (map oid (bs @ ?winner # as))"
      using dist split by simp
    have "orders ?w' = map (\<lambda>ord. if oid ord = oid ?winner then ?f ord else ord)
                          (bs @ ?winner # as)"
      using mapped split by simp
    also have "\<dots> = bs @ ?f ?winner # as"
      by (rule map_only_id[OF d])
    finally have ords: "orders ?w' = bs @ ?f ?winner # as" .
    with split st show ?thesis by auto
  qed
  show ?thesis
    unfolding Let_def run
    using unique by (simp add: mapped) (simp add: acceptOrder_def)
qed

text \<open>
  C5. A service error for an order is not an accepted reply: the loop goes on with the
  next in-progress order. When no in-progress order is accepted, verification returns
  false, appends the failure narration and asks about every in-progress order; the
  ledger and the inventory are as before, so no order becomes \<open>failed\<close>.
\<close>

theorem no_match_leaves_ledger:
  "(g k (verificationPrompt order d) = VServiceError \<longrightarrow>
      verifyLoop g t d k (order # rest) w =
        verifyLoop g t d (Suc k) rest
          (w\<lparr>verifierCalls := verifierCalls w @ [verificationPrompt order d]\<rparr>))
   \<and> \<not> accepted VServiceError
   \<and> (inProgress = filter (\<lambda>ord. status ord = in_progress) (orders w)
        \<and> inProgress \<noteq> []
        \<and> (\<forall>j < length inProgress.
               \<not> accepted (g j (verificationPrompt (inProgress ! j) d)))
      \<longrightarrow> (let verdict = verifyServedDish g t d w; w' = snd verdict
           in \<not> fst verdict
            \<and> orders w' = orders w
            \<and> timeline w' = timeline w @
                  [typedNarration (''verify-fail-'' @ show_nat t) t
                     (crossMark @ '' That'' @ [CHR 0x27] @ ''s not part of the current feast!'')]
            \<and> verifierCalls w' = verifierCalls w @
                  map (\<lambda>ord. verificationPrompt ord d) inProgress
            \<and> inventory w' = inventory w))"
proof (intro conjI impI)
  assume "g k (verificationPrompt order d) = VServiceError"
  then show "verifyLoop g t d k (order # rest) w =
        verifyLoop g t d (Suc k) rest
          (w\<lparr>verifierCalls := verifierCalls w @ [verificationPrompt order d]\<rparr>)"
    by (simp add: Let_def)
next
  show "\<not> accepted VServiceError" by (simp add: accepted_def)
next
  assume a: "inProgress = filter (\<lambda>ord. status ord = in_progress) (orders w)
        \<and> inProgress \<noteq> []
        \<and> (\<forall>j < length inProgress.
               \<not> accepted (g j (verificationPrompt (inProgress ! j) d)))"
  then have ne: "filter (\<lambda>ord. status ord = in_progress) (orders w) \<noteq> []"
    by blast
  from a have "\<forall>j < length inProgress.
                \<not> accepted (g j (verificationPrompt (inProgress ! j) d))"
    by blast
  then have none: "\<forall>j < length inProgress.
                \<not> accepted (g (0 + j) (verificationPrompt (inProgress ! j) d))"
    by simp
  have run: "verifyServedDish g t d w =
          (False, w\<lparr>verifierCalls := verifierCalls w @
                         map (\<lambda>ord. verificationPrompt ord d) inProgress,
                      timeline := timeline w @
                        [typedNarration (''verify-fail-'' @ show_nat t) t
                           (crossMark @ '' That'' @ [CHR 0x27]
                            @ ''s not part of the current feast!'')]\<rparr>)"
    unfolding verifyServedDish_loop[OF ne] conjunct1[OF a, symmetric]
    by (rule verifyLoop_none[OF none])
  show "let verdict = verifyServedDish g t d w; w' = snd verdict
           in \<not> fst verdict
            \<and> orders w' = orders w
            \<and> timeline w' = timeline w @
                  [typedNarration (''verify-fail-'' @ show_nat t) t
                     (crossMark @ '' That'' @ [CHR 0x27] @ ''s not part of the current feast!'')]
            \<and> verifierCalls w' = verifierCalls w @
                  map (\<lambda>ord. verificationPrompt ord d) inProgress
            \<and> inventory w' = inventory w"
    unfolding Let_def run by simp
qed

lemma timeline_verifyServedDish:
  "\<exists>entry. timeline (snd (verifyServedDish g t d w)) = timeline w @ [entry]"
  using timeline_verifyLoop by (simp add: verifyServedDish_def Let_def)

lemma timeline_handleVerify:
  "\<exists>es. timeline (snd (handleVerifyServedDish vref t d w)) = timeline w @ es"
proof (cases vref)
  case None
  then show ?thesis by (simp add: handleVerifyServedDish_def)
next
  case (Some g)
  obtain entry where "timeline (snd (verifyServedDish g t d w)) = timeline w @ [entry]"
    using timeline_verifyServedDish by blast
  with Some show ?thesis
    by (auto simp: handleVerifyServedDish_def Let_def split: prod.splits)
qed

section \<open>Properties of the cooking orchestrator\<close>

lemma validateLoop_Nil:
  "validateLoop ivt req acc = [] \<longleftrightarrow>
     acc = [] \<and> (\<forall>r \<in> set req. findIngredientInInventory r ivt = None)"
  by (induction req arbitrary: acc) (auto simp: Let_def split: option.splits)

lemma validateIngredients_Nil:
  "validateIngredients req ivt = [] \<longleftrightarrow> (\<forall>r \<in> set req. findIngredientInInventory r ivt = None)"
  by (simp add: validateIngredients_def validateLoop_Nil)

text \<open>
  C3. A regular action asked for a non-empty list of names of which none resolves
  against the inventory gets the response
  \<open>{success: false, error: "Ingredients missing from pantry."}\<close> and nothing else
  happens: the timeline, the inventory and the log of resolver calls are as before.
\<close>

theorem missing_from_pantry:
  assumes "fc_name fc = Some actionName"
    and "actionName \<noteq> ''serve_on_leaf''" and "actionName \<noteq> ''pass''"
    and "find (\<lambda>a. aname a = actionName) COOKING_ACTIONS = Some action"
    and "arg_ingredients fc = Some requested" and "requested \<noteq> []"
    and "\<forall>r \<in> set requested. findIngredientInInventory r (inventory w) = None"
  shows "handleApprovedFunctionCalls e (fc # rest) w =
           w\<lparr>sent := sent w @
                [FunctionResponse actionName (Failure ''Ingredients missing from pantry.'')]\<rparr>"
  using assms
  by (simp add: handleApprovedFunctionCalls_def regularCall_def validateIngredients_Nil
        sendMessage_def)

text \<open>The dispatcher on a regular action that passes validation.\<close>

lemma regular_passes:
  assumes "fc_name fc = Some actionName"
    and "actionName \<noteq> ''serve_on_leaf''" and "actionName \<noteq> ''pass''"
    and "find (\<lambda>a. aname a = actionName) COOKING_ACTIONS = Some action"
    and "requested = (case arg_ingredients fc of None \<Rightarrow> [] | Some xs \<Rightarrow> xs)"
    and "validated = validateIngredients requested (inventory w)"
    and "validated \<noteq> [] \<or> requested = []"
  shows "handleApprovedFunctionCalls e (fc # rest) w =
           (tryResolve e action actionName (''cooking-'' @ show_nat (now e)) validated
              (w\<lparr>pendingText := None,
                 timeline := timeline w @
                   [loadingEntry (''cooking-'' @ show_nat (now e)) (now e)
                      (orUndefined (pendingText w)) actionName validated],
                 activeAction := Some actionName,
                 actionTriggerCount := actionTriggerCount w + 1,
                 activeIngredients := set validated\<rparr>))
           \<lparr>activeAction := None, activeIngredients := {}\<rparr>"
  using assms
  by (auto simp: handleApprovedFunctionCalls_def regularCall_def Let_def)

lemma completeEntry_append:
  "completeEntry i r (xs @ [x]) = completeEntry i r xs @ [if tid x = i then x\<lparr>result := Done r\<rparr> else x]"
  by (simp add: completeEntry_def)

lemma executeCombination_None:
  "executeCombination generateContent action names = None \<longleftrightarrow>
     generateContent (combinationPrompt action names) = CServiceError
   \<or> generateContent (combinationPrompt action names) = CMalformed"
  by (simp add: executeCombination_def split: combination_reply.splits)

lemma length_completeEntry [simp]: "length (completeEntry i r xs) = length xs"
  by (simp add: completeEntry_def)

lemma tryResolve_null:
  assumes "executeCombinationRef e = Some resolve" and "resolve action v = Resolves None"
  shows "tryResolve e action an tlid v w =
           resolved an tlid (Named (fallbackIngredient action))
             (w\<lparr>resolverCalls := resolverCalls w @ [(action, v)]\<rparr>)"
  using assms by (simp add: tryResolve_def)

lemma tryResolve_some:
  assumes "executeCombinationRef e = Some resolve" and "resolve action v = Resolves (Some i)"
  shows "tryResolve e action an tlid v w =
           resolved an tlid i (w\<lparr>resolverCalls := resolverCalls w @ [(action, v)]\<rparr>)"
  using assms by (simp add: tryResolve_def)

lemma tryResolve_unset:
  assumes "executeCombinationRef e = None"
  shows "tryResolve e action an tlid v w = resolved an tlid (Named (fallbackIngredient action)) w"
  using assms by (simp add: tryResolve_def)

text \<open>The mounted resolver never rejects: it answers, or returns \<open>null\<close>.\<close>

lemma tryResolve_mounted:
  assumes "executeCombinationRef e = mountedResolver generateContent"
  shows "tryResolve e action an tlid v w =
           resolved an tlid
             (case executeCombination generateContent action v of
                None \<Rightarrow> Named (fallbackIngredient action) | Some p \<Rightarrow> p)
             (w\<lparr>resolverCalls := resolverCalls w @ [(action, v)]\<rparr>)"
  using assms by (simp add: tryResolve_def mountedResolver_def split: option.splits)

text \<open>What the end of the \<open>try\<close> block leaves, field by field.\<close>

lemma resolved_fields:
  "timeline (resolved an tlid p w) = completeEntry tlid p (timeline w)"
  "sent (resolved an tlid p w) =
     sent w @ [FunctionResponse an (SuccessResult (producedName p) (producedEmoji p))]"
  "resolverCalls (resolved an tlid p w) = resolverCalls w"
  "orders (resolved an tlid p w) = orders w"
  by (simp_all add: resolved_def sendMessage_def setInventoryWith_def split: produced.splits)

lemma resolved_named:
  "inventory (resolved an tlid (Named i) w) = insertIngredient i (inventory w)"
  "renderError (resolved an tlid (Named i) w) = renderError w"
  by (simp_all add: resolved_def sendMessage_def setInventoryWith_def)

lemma tryResolve_rejects:
  assumes "executeCombinationRef e = Some resolve" and "resolve action v = Rejects err"
  shows "tryResolve e action an tlid v w =
           caught an tlid err (w\<lparr>resolverCalls := resolverCalls w @ [(action, v)]\<rparr>)"
  using assms by (simp add: tryResolve_def)

text \<open>
  C1, as the code has it. Take a regular action that passes validation, with the
  resolver the combination agent installs. When the completion service fails or
  answers with text that is not JSON, \<open>executeCombination\<close> catches it and returns
  \<open>null\<close>, and the dispatcher goes on with the fallback ingredient: the pending entry is
  completed with it, it is inserted into the inventory (unless its normalized name is
  there) and success is reported. Nothing is thrown.
\<close>

theorem resolver_failure_fallback:
  assumes "fc_name fc = Some actionName"
    and "actionName \<noteq> ''serve_on_leaf''" and "actionName \<noteq> ''pass''"
    and "find (\<lambda>a. aname a = actionName) COOKING_ACTIONS = Some action"
    and "requested = (case arg_ingredients fc of None \<Rightarrow> [] | Some xs \<Rightarrow> xs)"
    and "validated = validateIngredients requested (inventory w)"
    and "validated \<noteq> [] \<or> requested = []"
    and "executeCombinationRef e = mountedResolver generateContent"
    and "generateContent (combinationPrompt action validated) = CServiceError
       \<or> generateContent (combinationPrompt action validated) = CMalformed"
  shows "let w' = handleApprovedFunctionCalls e (fc # rest) w;
             timelineId = ''cooking-'' @ show_nat (now e);
             pending = loadingEntry timelineId (now e) (orUndefined (pendingText w))
                         actionName validated;
             fallback = fallbackIngredient action
         in executeCombination generateContent action validated = None
          \<and> timeline w' = completeEntry timelineId (Named fallback) (timeline w)
                              @ [pending\<lparr>result := Done (Named fallback)\<rparr>]
          \<and> inventory w' = insertIngredient fallback (inventory w)
          \<and> sent w' = sent w @
               [FunctionResponse actionName (SuccessResult (Some (name fallback)) (emoji fallback))]
          \<and> resolverCalls w' = resolverCalls w @ [(action, validated)]
          \<and> renderError w' = renderError w"
proof -
  let ?tl = "''cooking-'' @ show_nat (now e)"
  let ?w1 = "w\<lparr>pendingText := None,
                timeline := timeline w @
                  [loadingEntry ?tl (now e) (orUndefined (pendingText w)) actionName validated],
                activeAction := Some actionName,
                actionTriggerCount := actionTriggerCount w + 1,
                activeIngredients := set validated\<rparr>"
  let ?w2 = "?w1\<lparr>resolverCalls := resolverCalls ?w1 @ [(action, validated)]\<rparr>"
  have null: "executeCombination generateContent action validated = None"
    using assms(9) by (simp add: executeCombination_None)
  have eq: "handleApprovedFunctionCalls e (fc # rest) w =
              (resolved actionName ?tl (Named (fallbackIngredient action)) ?w2)
                \<lparr>activeAction := None, activeIngredients := {}\<rparr>"
    unfolding regular_passes[OF assms(1-7)] tryResolve_mounted[OF assms(8)] null
    by simp
  show ?thesis
    unfolding Let_def eq
    by (simp add: null resolved_fields resolved_named completeEntry_append loadingEntry_def
          producedName_def producedEmoji_def)
qed

text \<open>
  A reply that parses but has no \<open>result_name\<close> is no failure to \<open>executeCombination\<close>:
  the object it returns is truthy, so there is no fallback; the pending entry is
  completed with the nameless object, success is reported with no result, and the
  inventory updater throws.
\<close>

lemma nameless_reply:
  assumes "fc_name fc = Some actionName"
    and "actionName \<noteq> ''serve_on_leaf''" and "actionName \<noteq> ''pass''"
    and "find (\<lambda>a. aname a = actionName) COOKING_ACTIONS = Some action"
    and "requested = (case arg_ingredients fc of None \<Rightarrow> [] | Some xs \<Rightarrow> xs)"
    and "validated = validateIngredients requested (inventory w)"
    and "validated \<noteq> [] \<or> requested = []"
    and "executeCombinationRef e = mountedResolver generateContent"
    and "generateContent (combinationPrompt action validated) = CDecoded None em"
  shows "inventory (handleApprovedFunctionCalls e (fc # rest) w) = inventory w"
    and "renderError (handleApprovedFunctionCalls e (fc # rest) w) = Some ''TypeError''"
    and "sent (handleApprovedFunctionCalls e (fc # rest) w) =
           sent w @ [FunctionResponse actionName (SuccessResult None em)]"
    and "result (last (timeline (handleApprovedFunctionCalls e (fc # rest) w))) =
           Done (Nameless em)"
proof -
  have answer: "executeCombination generateContent action validated = Some (Nameless em)"
    using assms(9) by (simp add: executeCombination_def)
  note eq = regular_passes[OF assms(1-7), of e rest]
  show "inventory (handleApprovedFunctionCalls e (fc # rest) w) = inventory w"
    unfolding eq tryResolve_mounted[OF assms(8)] answer
    by (simp add: resolved_def sendMessage_def setInventoryWith_def)
  show "renderError (handleApprovedFunctionCalls e (fc # rest) w) = Some ''TypeError''"
    unfolding eq tryResolve_mounted[OF assms(8)] answer
    by (simp add: resolved_def sendMessage_def setInventoryWith_def)
  show "sent (handleApprovedFunctionCalls e (fc # rest) w) =
           sent w @ [FunctionResponse actionName (SuccessResult None em)]"
    unfolding eq tryResolve_mounted[OF assms(8)] answer
    by (simp add: resolved_fields producedName_def producedEmoji_def)
  show "result (last (timeline (handleApprovedFunctionCalls e (fc # rest) w))) =
           Done (Nameless em)"
    unfolding eq tryResolve_mounted[OF assms(8)] answer
    by (simp add: resolved_fields completeEntry_append loadingEntry_def)
qed

text \<open>
  The manual path, \<open>executeAction\<close>, has no fallback: when the completion service fails
  or answers with text that is not JSON, the pending entry is completed with the error
  ingredient and the inventory is as before.
\<close>

lemma executeAction_failure:
  assumes "selectedIngredients w = dishName # others"
    and "aname action \<noteq> ''serve_on_leaf''"
    and "generateContent (combinationPrompt action (selectedIngredients w)) = CServiceError
       \<or> generateContent (combinationPrompt action (selectedIngredients w)) = CMalformed"
  shows "timeline (executeAction generateContent e action w) =
           completeEntry (show_nat (now e)) (Named errorIngredient) (timeline w) @
           [(loadingEntry (show_nat (now e)) (now e) None (aname action) (selectedIngredients w))
              \<lparr>result := Done (Named errorIngredient)\<rparr>]"
    and "inventory (executeAction generateContent e action w) = inventory w"
    and "sent (executeAction generateContent e action w) = sent w"
proof -
  have null: "executeCombination generateContent action (dishName # others) = None"
    using assms(1,3) by (simp add: executeCombination_None)
  show "timeline (executeAction generateContent e action w) =
           completeEntry (show_nat (now e)) (Named errorIngredient) (timeline w) @
           [(loadingEntry (show_nat (now e)) (now e) None (aname action) (selectedIngredients w))
              \<lparr>result := Done (Named errorIngredient)\<rparr>]"
    using assms(1,2) null
    by (simp add: executeAction_def Let_def completeEntry_append loadingEntry_def)
  show "inventory (executeAction generateContent e action w) = inventory w"
    using assms(1,2) null by (simp add: executeAction_def Let_def)
  show "sent (executeAction generateContent e action w) = sent w"
    using assms(1,2) null by (simp add: executeAction_def Let_def)
qed

text \<open>
  C9, as the code has it. A regular action whose \<open>ingredients\<close> argument is absent or
  empty does not take the missing-from-pantry path: the pending entry, with no
  ingredients, is appended. When the ref holds the resolver the combination agent
  installs, that resolver is called once, with the empty list, and its answer decides
  the outcome: the entry is completed with what it returned, with the fallback
  ingredient when it returned \<open>null\<close>, and the response reports that name. When the ref
  is \<open>null\<close> no resolver is called and the entry is completed with the fallback
  ingredient.
\<close>

theorem empty_request_reaches_resolver:
  assumes "fc_name fc = Some actionName"
    and "actionName \<noteq> ''serve_on_leaf''" and "actionName \<noteq> ''pass''"
    and "find (\<lambda>a. aname a = actionName) COOKING_ACTIONS = Some action"
    and "arg_ingredients fc = None \<or> arg_ingredients fc = Some []"
  shows "let w' = handleApprovedFunctionCalls e (fc # rest) w;
             timelineId = ''cooking-'' @ show_nat (now e);
             pending = loadingEntry timelineId (now e) (orUndefined (pendingText w)) actionName [];
             fallback = Named (fallbackIngredient action)
         in (\<forall>generateContent.
               executeCombinationRef e = mountedResolver generateContent \<longrightarrow>
                 (let answer = (case executeCombination generateContent action [] of
                                  None \<Rightarrow> fallback | Some p \<Rightarrow> p)
                  in resolverCalls w' = resolverCalls w @ [(action, [])]
                   \<and> timeline w' = completeEntry timelineId answer (timeline w)
                                       @ [pending\<lparr>result := Done answer\<rparr>]
                   \<and> sent w' = sent w @
                        [FunctionResponse actionName
                           (SuccessResult (producedName answer) (producedEmoji answer))]))
          \<and> (executeCombinationRef e = None \<longrightarrow>
                 resolverCalls w' = resolverCalls w
               \<and> timeline w' = completeEntry timelineId fallback (timeline w)
                                   @ [pending\<lparr>result := Done fallback\<rparr>]
               \<and> sent w' = sent w @
                    [FunctionResponse actionName
                       (SuccessResult (producedName fallback) (producedEmoji fallback))])"
proof -
  let ?tl = "''cooking-'' @ show_nat (now e)"
  let ?w1 = "w\<lparr>pendingText := None,
                timeline := timeline w @
                  [loadingEntry ?tl (now e) (orUndefined (pendingText w)) actionName []],
                activeAction := Some actionName,
                actionTriggerCount := actionTriggerCount w + 1,
                activeIngredients := set []\<rparr>"
  have req: "(case arg_ingredients fc of None \<Rightarrow> [] | Some xs \<Rightarrow> xs) = []"
    using assms(5) by auto
  have val: "validateIngredients [] (inventory w) = []"
    by (simp add: validateIngredients_def)
  have eq: "handleApprovedFunctionCalls e (fc # rest) w =
              (tryResolve e action actionName ?tl [] ?w1)
                \<lparr>activeAction := None, activeIngredients := {}\<rparr>"
    by (rule regular_passes[OF assms(1-4) req[symmetric] val[symmetric]]) simp
  have mounted: "tryResolve e action actionName ?tl [] ?w1 =
           resolved actionName ?tl
             (case executeCombination generateContent action [] of
                None \<Rightarrow> Named (fallbackIngredient action) | Some p \<Rightarrow> p)
             (?w1\<lparr>resolverCalls := resolverCalls ?w1 @ [(action, [])]\<rparr>)"
    if "executeCombinationRef e = mountedResolver generateContent" for generateContent
    using that by (rule tryResolve_mounted)
  have unset: "tryResolve e action actionName ?tl [] ?w1 =
           resolved actionName ?tl (Named (fallbackIngredient action)) ?w1"
    if "executeCombinationRef e = None"
    using that by (rule tryResolve_unset)
  show ?thesis
    unfolding Let_def eq
  proof (intro conjI allI impI)
    fix generateContent
    assume a: "executeCombinationRef e = mountedResolver generateContent"
    let ?answer = "case executeCombination generateContent action [] of
                     None \<Rightarrow> Named (fallbackIngredient action) | Some p \<Rightarrow> p"
    show "resolverCalls ((tryResolve e action actionName ?tl [] ?w1)
                           \<lparr>activeAction := None, activeIngredients := {}\<rparr>)
            = resolverCalls w @ [(action, [])]"
      unfolding mounted[OF a] by (simp add: resolved_fields)
    show "timeline ((tryResolve e action actionName ?tl [] ?w1)
                           \<lparr>activeAction := None, activeIngredients := {}\<rparr>)
            = completeEntry ?tl ?answer (timeline w)
              @ [(loadingEntry ?tl (now e) (orUndefined (pendingText w)) actionName [])
                   \<lparr>result := Done ?answer\<rparr>]"
      unfolding mounted[OF a]
      by (simp add: resolved_fields completeEntry_append loadingEntry_def)
    show "sent ((tryResolve e action actionName ?tl [] ?w1)
                           \<lparr>activeAction := None, activeIngredients := {}\<rparr>)
            = sent w @ [FunctionResponse actionName
                          (SuccessResult (producedName ?answer) (producedEmoji ?answer))]"
      unfolding mounted[OF a] by (simp add: resolved_fields)
  next
    assume a: "executeCombinationRef e = None"
    show "resolverCalls ((tryResolve e action actionName ?tl [] ?w1)
                           \<lparr>activeAction := None, activeIngredients := {}\<rparr>)
            = resolverCalls w"
      unfolding unset[OF a] by (simp add: resolved_fields)
    show "timeline ((tryResolve e action actionName ?tl [] ?w1)
                           \<lparr>activeAction := None, activeIngredients := {}\<rparr>)
            = completeEntry ?tl (Named (fallbackIngredient action)) (timeline w)
              @ [(loadingEntry ?tl (now e) (orUndefined (pendingText w)) actionName [])
                   \<lparr>result := Done (Named (fallbackIngredient action))\<rparr>]"
      unfolding unset[OF a]
      by (simp add: resolved_fields completeEntry_append loadingEntry_def)
    show "sent ((tryResolve e action actionName ?tl [] ?w1)
                           \<lparr>activeAction := None, activeIngredients := {}\<rparr>)
            = sent w @ [FunctionResponse actionName
                          (SuccessResult (producedName (Named (fallbackIngredient action)))
                             (producedEmoji (Named (fallbackIngredient action))))]"
      unfolding unset[OF a] by (simp add: resolved_fields)
  qed
qed

lemma handlePass_no_in_progress:
  "filter (\<lambda>ord. status ord = in_progress) (orders (handlePass w)) = []"
  by (auto simp: handlePass_def filter_empty_conv)

text \<open>
  C7. The \<open>pass\<close> tool call turns every in-progress order into a failed one whose
  \<open>servedDish\<close> is \<open>Vanished\<close>, leaves every other order as it is, so that no order
  is in progress afterwards, appends the narration, reports success and calls no
  resolver.
\<close>

theorem pass_abandons:
  assumes "fc_name fc = Some ''pass''"
  shows "let w' = handleApprovedFunctionCalls e (fc # rest) w in
         length (orders w') = length (orders w)
       \<and> (\<forall>k < length (orders w).
             (status (orders w ! k) = in_progress \<longrightarrow>
                orders w' ! k = (orders w ! k)\<lparr>status := failed, servedDish := Some ''Vanished''\<rparr>)
           \<and> (status (orders w ! k) \<noteq> in_progress \<longrightarrow> orders w' ! k = orders w ! k))
       \<and> filter (\<lambda>ord. status ord = in_progress) (orders w') = []
       \<and> timeline w' = timeline w @
             [narration (''pass-'' @ show_nat (now e)) (now e) (whiteFlag @ '' Gave up on the order'')]
       \<and> sent w' = sent w @ [FunctionResponse ''pass'' (SuccessMessage ''Order abandoned.'')]
       \<and> resolverCalls w' = resolverCalls w
       \<and> inventory w' = inventory w"
proof -
  have eq: "handleApprovedFunctionCalls e (fc # rest) w =
            sendMessage (FunctionResponse ''pass'' (SuccessMessage ''Order abandoned.''))
              ((handlePass w)\<lparr>timeline := timeline (handlePass w) @
                 [narration (''pass-'' @ show_nat (now e)) (now e)
                    (whiteFlag @ '' Gave up on the order'')]\<rparr>)"
    using assms by (simp add: handleApprovedFunctionCalls_def passCall_def Let_def)
  have none: "filter (\<lambda>ord. status ord = in_progress) (orders (handlePass w)) = []"
    by (rule handlePass_no_in_progress)
  show ?thesis
    unfolding Let_def eq
    using none by (simp add: sendMessage_def handlePass_def)
qed

text \<open>
  C10. A \<open>serve_on_leaf\<close> call without a dish, or with the empty string, is served
  under the name \<open>dish\<close>: the serving narration with that name is appended, the
  verification runs on that name, and the response reports its verdict.
\<close>

theorem serve_default_dish:
  assumes "fc_name fc = Some ''serve_on_leaf''"
    and "arg_dish fc = None \<or> arg_dish fc = Some []"
  shows "let w' = handleApprovedFunctionCalls e (fc # rest) w;
             serving = narration (''serve-'' @ show_nat (now e)) (now e)
                         (plate @ '' Serving on Banana Leaf: dish'');
             verdict = handleVerifyServedDish (verifyServedDishRef e) (vnow e) ''dish''
                         (w\<lparr>timeline := timeline w @ [serving]\<rparr>)
         in w' = sendMessage
                   (FunctionResponse ''serve_on_leaf''
                      (if fst verdict then SuccessMessage ''dish served! Romba nalla iruku!''
                       else Failure ''dish is not what was ordered. Try again!''))
                   (snd verdict)
          \<and> (\<exists>es. timeline w' = timeline w @ serving # es)
          \<and> sent w' = sent (snd verdict) @
               [FunctionResponse ''serve_on_leaf''
                  (if fst verdict then SuccessMessage ''dish served! Romba nalla iruku!''
                   else Failure ''dish is not what was ordered. Try again!'')]"
proof -
  let ?serving = "narration (''serve-'' @ show_nat (now e)) (now e)
                         (plate @ '' Serving on Banana Leaf: dish'')"
  let ?verdict = "handleVerifyServedDish (verifyServedDishRef e) (vnow e) ''dish''
                         (w\<lparr>timeline := timeline w @ [?serving]\<rparr>)"
  have dish: "(case arg_dish fc of None \<Rightarrow> ''dish'' | Some d \<Rightarrow> if d = [] then ''dish'' else d)
                = ''dish''"
    using assms(2) by auto
  have eq: "handleApprovedFunctionCalls e (fc # rest) w =
              sendMessage
                   (FunctionResponse ''serve_on_leaf''
                      (if fst ?verdict then SuccessMessage ''dish served! Romba nalla iruku!''
                       else Failure ''dish is not what was ordered. Try again!''))
                   (snd ?verdict)"
    using assms(1)
    by (simp add: handleApprovedFunctionCalls_def serveCall_def dish Let_def split: prod.splits)
  obtain es where es: "timeline (snd ?verdict) = (timeline w @ [?serving]) @ es"
    using timeline_handleVerify[of "verifyServedDishRef e" "vnow e" "''dish''"
            "w\<lparr>timeline := timeline w @ [?serving]\<rparr>"]
    by auto
  show ?thesis
    unfolding Let_def eq
    using es by (simp add: sendMessage_def)
qed

section \<open>The properties at the concrete kitchen\<close>

lemma stoneGrind_found:
  "find (\<lambda>a. aname a = ''stone_grind'') COOKING_ACTIONS = Some stoneGrind"
  by code_simp

lemma busy_in_progress:
  "[filterCoffee\<lparr>status := in_progress\<rparr>, masalaDosa\<lparr>status := in_progress\<rparr>]
     = filter (\<lambda>ord. status ord = in_progress) (orders busyKitchen)"
  by (simp add: busyKitchen_def smallKitchen_def)

lemma busy_distinct: "distinct (map oid (orders busyKitchen))"
  by (simp add: busyKitchen_def smallKitchen_def filterCoffee_def masalaDosa_def)


text \<open>
  Inserting \<open>Ponni-Rice\<close> into an inventory that has \<open>ponni rice\<close>.
\<close>

theorem insertIngredient_idempotent_witness:
  "insertIngredient \<lparr>name = ''Ponni-Rice'', emoji = None\<rparr> [ponniRice, uradDal]
     = [ponniRice, uradDal]
   \<and> collisionFree [ponniRice, uradDal]
   \<and> collisionFree (insertIngredient \<lparr>name = ''Ponni-Rice'', emoji = None\<rparr> [ponniRice, uradDal])"
proof -
  note inst = insertIngredient_idempotent
                [of "[ponniRice, uradDal]" "\<lparr>name = ''Ponni-Rice'', emoji = None\<rparr>"]
  have h1: "\<exists>e \<in> set [ponniRice, uradDal].
              normalizeIngredientName (name e)
                = normalizeIngredientName (name \<lparr>name = ''Ponni-Rice'', emoji = None\<rparr>)"
    by code_simp
  have h2: "collisionFree [ponniRice, uradDal]"
    by code_simp
  from inst h1 h2 show ?thesis by blast
qed

text \<open>
  Against C2 as stated: picking up a completed order by its id puts it back in progress,
  and a batch pick-up does the same to a failed one.
\<close>

theorem pickup_terminal_counterexample:
  "status (filterCoffee\<lparr>status := completed, servedDish := Some ''Degree Coffee''\<rparr>) = completed
   \<and> orders (handlePickUp ''order-1''
        (smallKitchen\<lparr>orders := [filterCoffee\<lparr>status := completed,
                                                 servedDish := Some ''Degree Coffee''\<rparr>,
                                   masalaDosa\<lparr>status := failed,
                                               servedDish := Some ''Vanished''\<rparr>]\<rparr>))
     = [filterCoffee\<lparr>status := in_progress, servedDish := Some ''Degree Coffee''\<rparr>,
        masalaDosa\<lparr>status := failed, servedDish := Some ''Vanished''\<rparr>]
   \<and> orders (handleCookBatchWithGemini False [masalaDosa]
        (smallKitchen\<lparr>orders := [filterCoffee\<lparr>status := completed,
                                                 servedDish := Some ''Degree Coffee''\<rparr>,
                                   masalaDosa\<lparr>status := failed,
                                               servedDish := Some ''Vanished''\<rparr>]\<rparr>))
     = [filterCoffee\<lparr>status := completed, servedDish := Some ''Degree Coffee''\<rparr>,
        masalaDosa\<lparr>status := in_progress, servedDish := Some ''Vanished''\<rparr>]"
  by (simp add: handlePickUp_def handleCookBatchWithGemini_def smallKitchen_def filterCoffee_def
        masalaDosa_def)

text \<open>
  Picking up the first order of the small kitchen, by hand and through the agent.
\<close>

theorem pickup_unguarded_witness:
  "orders (handlePickUp ''order-1'' smallKitchen) ! 0 = filterCoffee\<lparr>status := in_progress\<rparr>
   \<and> orders (handlePickUp ''order-1'' smallKitchen) ! 1 = masalaDosa
   \<and> orders (handleCookWithGemini True filterCoffee smallKitchen)
       = orders (handlePickUp ''order-1'' smallKitchen)
   \<and> orders (handleCookWithGemini True (filterCoffee\<lparr>status := completed\<rparr>) smallKitchen)
       = orders smallKitchen"
proof -
  have ords: "orders smallKitchen = [filterCoffee, masalaDosa]"
    by (simp add: smallKitchen_def)
  have ids: "oid filterCoffee = ''order-1''" "oid masalaDosa \<noteq> ''order-1''"
    and st: "status filterCoffee = not_started"
            "status (filterCoffee\<lparr>status := completed\<rparr>) \<noteq> not_started"
    by (simp_all add: filterCoffee_def masalaDosa_def)
  note fresh = pickup_unguarded [of "''order-1''" smallKitchen filterCoffee True]
  note terminal = pickup_unguarded
                [of "''order-1''" smallKitchen "filterCoffee\<lparr>status := completed\<rparr>" True]
  from fresh have each: "\<forall>k < length (orders smallKitchen).
         (oid (orders smallKitchen ! k) = ''order-1'' \<longrightarrow>
            orders (handlePickUp ''order-1'' smallKitchen) ! k
              = (orders smallKitchen ! k)\<lparr>status := in_progress\<rparr>)
       \<and> (oid (orders smallKitchen ! k) \<noteq> ''order-1'' \<longrightarrow>
            orders (handlePickUp ''order-1'' smallKitchen) ! k = orders smallKitchen ! k)"
    by blast
  from each have "0 < length (orders smallKitchen) \<longrightarrow>
         (oid (orders smallKitchen ! 0) = ''order-1'' \<longrightarrow>
            orders (handlePickUp ''order-1'' smallKitchen) ! 0
              = (orders smallKitchen ! 0)\<lparr>status := in_progress\<rparr>)"
    by blast
  then have r0: "orders (handlePickUp ''order-1'' smallKitchen) ! 0
                   = filterCoffee\<lparr>status := in_progress\<rparr>"
    by (simp add: ords ids)
  from each have "1 < length (orders smallKitchen) \<longrightarrow>
         (oid (orders smallKitchen ! 1) \<noteq> ''order-1'' \<longrightarrow>
            orders (handlePickUp ''order-1'' smallKitchen) ! 1 = orders smallKitchen ! 1)"
    by blast
  then have r1: "orders (handlePickUp ''order-1'' smallKitchen) ! 1 = masalaDosa"
    by (simp add: ords ids)
  from fresh st(1) have "orders (handleCookWithGemini True filterCoffee smallKitchen)
       = orders (handlePickUp (oid filterCoffee) smallKitchen)"
    by blast
  then have r2: "orders (handleCookWithGemini True filterCoffee smallKitchen)
       = orders (handlePickUp ''order-1'' smallKitchen)"
    by (simp add: ids)
  from terminal st(2)
  have r3: "orders (handleCookWithGemini True (filterCoffee\<lparr>status := completed\<rparr>) smallKitchen)
       = orders smallKitchen"
    by blast
  from r0 r1 r2 r3 show ?thesis by blast
qed

text \<open>
  The example of the specification: both orders in progress, the judge accepts the
  first with confidence 0.9. And a judge whose first call fails and whose second accepts.
\<close>

theorem first_match_completes_witness:
  "fst (verifyServedDish judgeFirst 8 ''Degree Coffee'' busyKitchen)
   \<and> verifierCalls (snd (verifyServedDish judgeFirst 8 ''Degree Coffee'' busyKitchen))
       = [verificationPrompt filterCoffee ''Degree Coffee'']
   \<and> length (filter (\<lambda>ord. status ord = completed)
               (orders (snd (verifyServedDish judgeFirst 8 ''Degree Coffee'' busyKitchen)))) = 1
   \<and> map status (orders (snd (verifyServedDish judgeFirst 8 ''Degree Coffee'' busyKitchen)))
       = [completed, in_progress]
   \<and> fst (verifyServedDish judgeSecond 8 ''Dosa'' busyKitchen)
   \<and> verifierCalls (snd (verifyServedDish judgeSecond 8 ''Dosa'' busyKitchen))
       = [verificationPrompt filterCoffee ''Dosa'', verificationPrompt masalaDosa ''Dosa'']
   \<and> map status (orders (snd (verifyServedDish judgeSecond 8 ''Dosa'' busyKitchen)))
       = [in_progress, completed]"
proof -
  let ?ips = "[filterCoffee\<lparr>status := in_progress\<rparr>, masalaDosa\<lparr>status := in_progress\<rparr>]"
  have quiet: "verifierCalls busyKitchen = []"
    "filter (\<lambda>ord. status ord = completed) (orders busyKitchen) = []"
    by (simp_all add: busyKitchen_def smallKitchen_def filterCoffee_def masalaDosa_def)
  have prompts: "verificationPrompt (ord\<lparr>status := s\<rparr>) d = verificationPrompt ord d" for ord s d
    by (simp add: verificationPrompt_def)
  have i0: "0 < length ?ips" and i1: "1 < length ?ips"
    by simp_all
  have a0: "judgeFirst 0 (verificationPrompt (?ips ! 0) ''Degree Coffee'')
              = VDecoded (Some True) (Some 0.9)"
    by (simp add: judgeFirst_def)
  have a1: "judgeSecond 1 (verificationPrompt (?ips ! 1) ''Dosa'') = VDecoded (Some True) (Some 0.9)"
    by (simp add: judgeSecond_def)
  have c: "(0.9::real) > 0.7"
    by simp
  have b0: "\<forall>j < 0. \<not> accepted (judgeFirst j (verificationPrompt (?ips ! j) ''Degree Coffee''))"
    by simp
  have b1: "\<forall>j < 1. \<not> accepted (judgeSecond j (verificationPrompt (?ips ! j) ''Dosa''))"
    by (simp add: judgeSecond_def accepted_def)
  note first = first_match_completes
                 [where w = busyKitchen and inProgress = ?ips and i = 0 and g = judgeFirst
                    and d = "''Degree Coffee''" and c = "0.9" and t = 8,
                  OF busy_in_progress i0 a0 c b0, unfolded Let_def]
  note second = first_match_completes
                 [where w = busyKitchen and inProgress = ?ips and i = 1 and g = judgeSecond
                    and d = "''Dosa''" and c = "0.9" and t = 8,
                  OF busy_in_progress i1 a1 c b1, unfolded Let_def]
  from first have r1: "fst (verifyServedDish judgeFirst 8 ''Degree Coffee'' busyKitchen)"
    by blast
  from first have "verifierCalls (snd (verifyServedDish judgeFirst 8 ''Degree Coffee'' busyKitchen))
       = verifierCalls busyKitchen @
         map (\<lambda>ord. verificationPrompt ord ''Degree Coffee'') (take (Suc 0) ?ips)"
    by blast
  then have r2: "verifierCalls (snd (verifyServedDish judgeFirst 8 ''Degree Coffee'' busyKitchen))
       = [verificationPrompt filterCoffee ''Degree Coffee'']"
    by (simp add: quiet prompts)
  from first busy_distinct have "length (filter (\<lambda>ord. status ord = completed)
               (orders (snd (verifyServedDish judgeFirst 8 ''Degree Coffee'' busyKitchen))))
       = Suc (length (filter (\<lambda>ord. status ord = completed) (orders busyKitchen)))"
    by blast
  then have r3: "length (filter (\<lambda>ord. status ord = completed)
               (orders (snd (verifyServedDish judgeFirst 8 ''Degree Coffee'' busyKitchen)))) = 1"
    by (simp add: quiet)
  have r4: "map status (orders (snd (verifyServedDish judgeFirst 8 ''Degree Coffee'' busyKitchen)))
       = [completed, in_progress]"
    by (simp add: verifyServedDish_def busyKitchen_def smallKitchen_def judgeFirst_def accepts_def
          acceptOrder_def filterCoffee_def masalaDosa_def Let_def)
  from second have r5: "fst (verifyServedDish judgeSecond 8 ''Dosa'' busyKitchen)"
    by blast
  from second have "verifierCalls (snd (verifyServedDish judgeSecond 8 ''Dosa'' busyKitchen))
       = verifierCalls busyKitchen @
         map (\<lambda>ord. verificationPrompt ord ''Dosa'') (take (Suc 1) ?ips)"
    by blast
  then have r6: "verifierCalls (snd (verifyServedDish judgeSecond 8 ''Dosa'' busyKitchen))
       = [verificationPrompt filterCoffee ''Dosa'', verificationPrompt masalaDosa ''Dosa'']"
    by (simp add: quiet prompts)
  have r7: "map status (orders (snd (verifyServedDish judgeSecond 8 ''Dosa'' busyKitchen)))
       = [in_progress, completed]"
    by (simp add: verifyServedDish_def busyKitchen_def smallKitchen_def judgeSecond_def accepts_def
          acceptOrder_def filterCoffee_def masalaDosa_def Let_def)
  from r1 r2 r3 r4 r5 r6 r7 show ?thesis by blast
qed

text \<open>
  A judge whose service is down: every order is skipped and the ledger stays.
\<close>

theorem no_match_leaves_ledger_witness:
  "verifyLoop judgeDown 8 ''Upma'' 0
      [filterCoffee\<lparr>status := in_progress\<rparr>, masalaDosa\<lparr>status := in_progress\<rparr>] busyKitchen
     = verifyLoop judgeDown 8 ''Upma'' 1 [masalaDosa\<lparr>status := in_progress\<rparr>]
         (busyKitchen\<lparr>verifierCalls := verifierCalls busyKitchen @
            [verificationPrompt (filterCoffee\<lparr>status := in_progress\<rparr>) ''Upma'']\<rparr>)
   \<and> fst (verifyServedDish judgeDown 8 ''Upma'' busyKitchen) = False
   \<and> orders (snd (verifyServedDish judgeDown 8 ''Upma'' busyKitchen)) = orders busyKitchen
   \<and> verifierCalls (snd (verifyServedDish judgeDown 8 ''Upma'' busyKitchen))
       = [verificationPrompt filterCoffee ''Upma'', verificationPrompt masalaDosa ''Upma'']"
proof -
  let ?ips = "[filterCoffee\<lparr>status := in_progress\<rparr>, masalaDosa\<lparr>status := in_progress\<rparr>]"
  have quiet: "verifierCalls busyKitchen = []"
    by (simp add: busyKitchen_def smallKitchen_def)
  have prompts: "verificationPrompt (ord\<lparr>status := s\<rparr>) d = verificationPrompt ord d" for ord s d
    by (simp add: verificationPrompt_def)
  note inst = no_match_leaves_ledger
                [where g = judgeDown and k = 0 and order = "filterCoffee\<lparr>status := in_progress\<rparr>"
                   and d = "''Upma''" and t = 8 and rest = "[masalaDosa\<lparr>status := in_progress\<rparr>]"
                   and w = busyKitchen and inProgress = ?ips, unfolded Let_def]
  have down: "judgeDown 0 (verificationPrompt (filterCoffee\<lparr>status := in_progress\<rparr>) ''Upma'')
                = VServiceError"
    by (simp add: judgeDown_def)
  have "?ips \<noteq> []"
    and "\<forall>j < length ?ips. \<not> accepted (judgeDown j (verificationPrompt (?ips ! j) ''Upma''))"
    by (simp_all add: judgeDown_def accepted_def)
  with busy_in_progress
  have none: "?ips = filter (\<lambda>ord. status ord = in_progress) (orders busyKitchen)
        \<and> ?ips \<noteq> []
        \<and> (\<forall>j < length ?ips. \<not> accepted (judgeDown j (verificationPrompt (?ips ! j) ''Upma'')))"
    by blast
  from inst down have r1: "verifyLoop judgeDown 8 ''Upma'' 0 ?ips busyKitchen
     = verifyLoop judgeDown 8 ''Upma'' (Suc 0) [masalaDosa\<lparr>status := in_progress\<rparr>]
         (busyKitchen\<lparr>verifierCalls := verifierCalls busyKitchen @
            [verificationPrompt (filterCoffee\<lparr>status := in_progress\<rparr>) ''Upma'']\<rparr>)"
    by blast
  from inst none have r2: "\<not> fst (verifyServedDish judgeDown 8 ''Upma'' busyKitchen)"
    and r3: "orders (snd (verifyServedDish judgeDown 8 ''Upma'' busyKitchen)) = orders busyKitchen"
    and "verifierCalls (snd (verifyServedDish judgeDown 8 ''Upma'' busyKitchen))
       = verifierCalls busyKitchen @ map (\<lambda>ord. verificationPrompt ord ''Upma'') ?ips"
    by blast+
  then have r4: "verifierCalls (snd (verifyServedDish judgeDown 8 ''Upma'' busyKitchen))
       = [verificationPrompt filterCoffee ''Upma'', verificationPrompt masalaDosa ''Upma'']"
    by (simp add: quiet prompts)
  from r1 r2 r3 r4 show ?thesis by simp
qed

text \<open>
  A request for one name the pantry does not have.
\<close>

theorem missing_from_pantry_witness:
  "handleApprovedFunctionCalls downEnv [stoneGrindCall (Some [''nonexistent item''])] smallKitchen
     = smallKitchen\<lparr>sent := sent smallKitchen @
         [FunctionResponse ''stone_grind'' (Failure ''Ingredients missing from pantry.'')]\<rparr>"
proof -
  have h1: "fc_name (stoneGrindCall (Some [''nonexistent item''])) = Some ''stone_grind''"
    by (simp add: stoneGrindCall_def)
  have h2: "''stone_grind'' \<noteq> ''serve_on_leaf''" and h3: "''stone_grind'' \<noteq> ''pass''"
    by simp_all
  have h5: "arg_ingredients (stoneGrindCall (Some [''nonexistent item''])) = Some [''nonexistent item'']"
    by (simp add: stoneGrindCall_def)
  have h6: "[''nonexistent item''] \<noteq> []"
    by simp
  have h7: "\<forall>r \<in> set [''nonexistent item''].
              findIngredientInInventory r (inventory smallKitchen) = None"
    by code_simp
  show ?thesis
    by (rule missing_from_pantry [OF h1 h2 h3 stoneGrind_found h5 h6 h7])
qed

lemma stoneGrind_fallback:
  "fallbackIngredient stoneGrind =
     \<lparr>name = ''stone grinded items'', emoji = Some [CHR 0xF0, CHR 0x9F, CHR 0xAA, CHR 0xA8]\<rparr>"
  by (simp add: fallbackIngredient_def stoneGrind_def)

text \<open>
  Against C1 as stated: the request passes validation, the completion service is down
  and the resolver returns \<open>null\<close>; the inventory gains the fallback ingredient, the
  pending entry is completed with it, and the response reports success.
\<close>

theorem resolver_failure_counterexample:
  "validateIngredients [''ponni rice'', ''urad dal''] (inventory smallKitchen)
     = [''ponni rice'', ''urad dal'']
   \<and> executeCombinationRef downEnv = mountedResolver serviceDown
   \<and> serviceDown (combinationPrompt stoneGrind [''ponni rice'', ''urad dal'']) = CServiceError
   \<and> executeCombination serviceDown stoneGrind [''ponni rice'', ''urad dal''] = None
   \<and> inventory smallKitchen = [ponniRice, uradDal]
   \<and> inventory (handleApprovedFunctionCalls downEnv
                  [stoneGrindCall (Some [''ponni rice'', ''urad dal''])] smallKitchen)
       = [\<lparr>name = ''stone grinded items'',
           emoji = Some [CHR 0xF0, CHR 0x9F, CHR 0xAA, CHR 0xA8]\<rparr>, ponniRice, uradDal]
   \<and> sent (handleApprovedFunctionCalls downEnv
             [stoneGrindCall (Some [''ponni rice'', ''urad dal''])] smallKitchen)
       = [FunctionResponse ''stone_grind''
            (SuccessResult (Some ''stone grinded items'')
               (Some [CHR 0xF0, CHR 0x9F, CHR 0xAA, CHR 0xA8]))]
   \<and> map result (timeline (handleApprovedFunctionCalls downEnv
                             [stoneGrindCall (Some [''ponni rice'', ''urad dal''])] smallKitchen))
       = [Done (Named \<lparr>name = ''stone grinded items'',
                       emoji = Some [CHR 0xF0, CHR 0x9F, CHR 0xAA, CHR 0xA8]\<rparr>)]"
proof (intro conjI)
  show "validateIngredients [''ponni rice'', ''urad dal''] (inventory smallKitchen)
     = [''ponni rice'', ''urad dal'']"
    by code_simp
  show "executeCombinationRef downEnv = mountedResolver serviceDown"
    by (simp add: downEnv_def)
  show "serviceDown (combinationPrompt stoneGrind [''ponni rice'', ''urad dal'']) = CServiceError"
    by (simp add: serviceDown_def)
  show "executeCombination serviceDown stoneGrind [''ponni rice'', ''urad dal''] = None"
    by (simp add: executeCombination_def serviceDown_def)
  show "inventory smallKitchen = [ponniRice, uradDal]"
    by (simp add: smallKitchen_def)
  show "inventory (handleApprovedFunctionCalls downEnv
                  [stoneGrindCall (Some [''ponni rice'', ''urad dal''])] smallKitchen)
       = [\<lparr>name = ''stone grinded items'',
           emoji = Some [CHR 0xF0, CHR 0x9F, CHR 0xAA, CHR 0xA8]\<rparr>, ponniRice, uradDal]"
    by code_simp
  show "sent (handleApprovedFunctionCalls downEnv
             [stoneGrindCall (Some [''ponni rice'', ''urad dal''])] smallKitchen)
       = [FunctionResponse ''stone_grind''
            (SuccessResult (Some ''stone grinded items'')
               (Some [CHR 0xF0, CHR 0x9F, CHR 0xAA, CHR 0xA8]))]"
    by code_simp
  show "map result (timeline (handleApprovedFunctionCalls downEnv
                             [stoneGrindCall (Some [''ponni rice'', ''urad dal''])] smallKitchen))
       = [Done (Named \<lparr>name = ''stone grinded items'',
                       emoji = Some [CHR 0xF0, CHR 0x9F, CHR 0xAA, CHR 0xA8]\<rparr>)]"
    by code_simp
qed

text \<open>The same request with the service down, and with a service whose text is not JSON.\<close>

theorem resolver_failure_fallback_witness:
  "sent (handleApprovedFunctionCalls downEnv
           [stoneGrindCall (Some [''ponni rice'', ''urad dal''])] smallKitchen)
     = [FunctionResponse ''stone_grind''
          (SuccessResult (Some ''stone grinded items'')
             (Some [CHR 0xF0, CHR 0x9F, CHR 0xAA, CHR 0xA8]))]
   \<and> inventory (handleApprovedFunctionCalls downEnv
           [stoneGrindCall (Some [''ponni rice'', ''urad dal''])] smallKitchen)
     = [\<lparr>name = ''stone grinded items'',
         emoji = Some [CHR 0xF0, CHR 0x9F, CHR 0xAA, CHR 0xA8]\<rparr>, ponniRice, uradDal]
   \<and> sent (handleApprovedFunctionCalls garbledEnv
           [stoneGrindCall (Some [''ponni rice'', ''urad dal''])] smallKitchen)
     = [FunctionResponse ''stone_grind''
          (SuccessResult (Some ''stone grinded items'')
             (Some [CHR 0xF0, CHR 0x9F, CHR 0xAA, CHR 0xA8]))]
   \<and> renderError (handleApprovedFunctionCalls garbledEnv
           [stoneGrindCall (Some [''ponni rice'', ''urad dal''])] smallKitchen) = None"
proof -
  let ?call = "stoneGrindCall (Some [''ponni rice'', ''urad dal''])"
  let ?names = "[''ponni rice'', ''urad dal'']"
  have h1: "fc_name ?call = Some ''stone_grind''"
    by (simp add: stoneGrindCall_def)
  have h2: "''stone_grind'' \<noteq> ''serve_on_leaf''" and h3: "''stone_grind'' \<noteq> ''pass''"
    by simp_all
  have h5: "?names = (case arg_ingredients ?call of None \<Rightarrow> [] | Some xs \<Rightarrow> xs)"
    by (simp add: stoneGrindCall_def)
  have h6: "?names = validateIngredients ?names (inventory smallKitchen)"
    by code_simp
  have h7: "?names \<noteq> [] \<or> ?names = []"
    by simp
  have down: "executeCombinationRef downEnv = mountedResolver serviceDown"
    and garbled: "executeCombinationRef garbledEnv = mountedResolver serviceGarbled"
    by (simp_all add: downEnv_def garbledEnv_def)
  have error: "serviceDown (combinationPrompt stoneGrind ?names) = CServiceError
             \<or> serviceDown (combinationPrompt stoneGrind ?names) = CMalformed"
    and notJSON: "serviceGarbled (combinationPrompt stoneGrind ?names) = CServiceError
             \<or> serviceGarbled (combinationPrompt stoneGrind ?names) = CMalformed"
    by (simp_all add: serviceDown_def serviceGarbled_def)
  have quiet: "sent smallKitchen = []" "inventory smallKitchen = [ponniRice, uradDal]"
    "renderError smallKitchen = None"
    by (simp_all add: smallKitchen_def)
  have ins: "insertIngredient (fallbackIngredient stoneGrind) [ponniRice, uradDal]
               = [\<lparr>name = ''stone grinded items'',
                   emoji = Some [CHR 0xF0, CHR 0x9F, CHR 0xAA, CHR 0xA8]\<rparr>, ponniRice, uradDal]"
    by code_simp
  note a = resolver_failure_fallback
             [OF h1 h2 h3 stoneGrind_found h5 h6 h7 down error, of "[]", unfolded Let_def]
  note b = resolver_failure_fallback
             [OF h1 h2 h3 stoneGrind_found h5 h6 h7 garbled notJSON, of "[]", unfolded Let_def]
  from a have "sent (handleApprovedFunctionCalls downEnv [?call] smallKitchen)
          = sent smallKitchen @
            [FunctionResponse ''stone_grind''
               (SuccessResult (Some (name (fallbackIngredient stoneGrind)))
                  (emoji (fallbackIngredient stoneGrind)))]"
    by blast
  then have r1: "sent (handleApprovedFunctionCalls downEnv [?call] smallKitchen)
     = [FunctionResponse ''stone_grind''
          (SuccessResult (Some ''stone grinded items'')
             (Some [CHR 0xF0, CHR 0x9F, CHR 0xAA, CHR 0xA8]))]"
    by (simp add: quiet stoneGrind_fallback)
  from a have "inventory (handleApprovedFunctionCalls downEnv [?call] smallKitchen)
          = insertIngredient (fallbackIngredient stoneGrind) (inventory smallKitchen)"
    by blast
  then have r2: "inventory (handleApprovedFunctionCalls downEnv [?call] smallKitchen)
     = [\<lparr>name = ''stone grinded items'',
         emoji = Some [CHR 0xF0, CHR 0x9F, CHR 0xAA, CHR 0xA8]\<rparr>, ponniRice, uradDal]"
    by (simp only: quiet ins)
  from b have "sent (handleApprovedFunctionCalls garbledEnv [?call] smallKitchen)
          = sent smallKitchen @
            [FunctionResponse ''stone_grind''
               (SuccessResult (Some (name (fallbackIngredient stoneGrind)))
                  (emoji (fallbackIngredient stoneGrind)))]"
    by blast
  then have r3: "sent (handleApprovedFunctionCalls garbledEnv [?call] smallKitchen)
     = [FunctionResponse ''stone_grind''
          (SuccessResult (Some ''stone grinded items'')
             (Some [CHR 0xF0, CHR 0x9F, CHR 0xAA, CHR 0xA8]))]"
    by (simp add: quiet stoneGrind_fallback)
  from b have "renderError (handleApprovedFunctionCalls garbledEnv [?call] smallKitchen)
          = renderError smallKitchen"
    by blast
  then have r4: "renderError (handleApprovedFunctionCalls garbledEnv [?call] smallKitchen) = None"
    by (simp add: quiet)
  from r1 r2 r3 r4 show ?thesis by blast
qed

text \<open>
  Against C9 as stated: a \<open>stone_grind\<close> call without ingredients while the ref is
  \<open>null\<close>. The pending entry is appended and completed, success is reported, and no
  resolver has been called.
\<close>

theorem empty_request_counterexample:
  "arg_ingredients (stoneGrindCall None) = None
   \<and> executeCombinationRef unmountedEnv = None
   \<and> resolverCalls (handleApprovedFunctionCalls unmountedEnv [stoneGrindCall None] smallKitchen)
       = []
   \<and> map result (timeline (handleApprovedFunctionCalls unmountedEnv [stoneGrindCall None]
                             smallKitchen))
       = [Done (Named \<lparr>name = ''stone grinded items'',
                       emoji = Some [CHR 0xF0, CHR 0x9F, CHR 0xAA, CHR 0xA8]\<rparr>)]
   \<and> sent (handleApprovedFunctionCalls unmountedEnv [stoneGrindCall None] smallKitchen)
       = [FunctionResponse ''stone_grind''
            (SuccessResult (Some ''stone grinded items'')
               (Some [CHR 0xF0, CHR 0x9F, CHR 0xAA, CHR 0xA8]))]"
proof (intro conjI)
  show "arg_ingredients (stoneGrindCall None) = None"
    by (simp add: stoneGrindCall_def)
  show "executeCombinationRef unmountedEnv = None"
    by (simp add: unmountedEnv_def)
  show "resolverCalls (handleApprovedFunctionCalls unmountedEnv [stoneGrindCall None] smallKitchen)
       = []"
    by code_simp
  show "map result (timeline (handleApprovedFunctionCalls unmountedEnv [stoneGrindCall None]
                             smallKitchen))
       = [Done (Named \<lparr>name = ''stone grinded items'',
                       emoji = Some [CHR 0xF0, CHR 0x9F, CHR 0xAA, CHR 0xA8]\<rparr>)]"
    by code_simp
  show "sent (handleApprovedFunctionCalls unmountedEnv [stoneGrindCall None] smallKitchen)
       = [FunctionResponse ''stone_grind''
            (SuccessResult (Some ''stone grinded items'')
               (Some [CHR 0xF0, CHR 0x9F, CHR 0xAA, CHR 0xA8]))]"
    by code_simp
qed

text \<open>
  A \<open>stone_grind\<close> call without ingredients answered with idli batter, one with the
  empty list while the service is down, and one while the ref is \<open>null\<close>.
\<close>

theorem empty_request_reaches_resolver_witness:
  "resolverCalls (handleApprovedFunctionCalls idliEnv [stoneGrindCall None] smallKitchen)
     = [(stoneGrind, [])]
   \<and> sent (handleApprovedFunctionCalls idliEnv [stoneGrindCall None] smallKitchen)
     = [FunctionResponse ''stone_grind''
          (SuccessResult (Some ''Idli Batter'') (Some [CHR 0xF0, CHR 0x9F, CHR 0xA5, CHR 0xA3]))]
   \<and> resolverCalls (handleApprovedFunctionCalls downEnv [stoneGrindCall (Some [])] smallKitchen)
     = [(stoneGrind, [])]
   \<and> sent (handleApprovedFunctionCalls downEnv [stoneGrindCall (Some [])] smallKitchen)
     = [FunctionResponse ''stone_grind''
          (SuccessResult (Some ''stone grinded items'')
             (Some [CHR 0xF0, CHR 0x9F, CHR 0xAA, CHR 0xA8]))]
   \<and> resolverCalls (handleApprovedFunctionCalls unmountedEnv [stoneGrindCall None] smallKitchen)
     = []"
proof -
  have h1: "fc_name (stoneGrindCall args) = Some ''stone_grind''" for args
    by (simp add: stoneGrindCall_def)
  have h2: "''stone_grind'' \<noteq> ''serve_on_leaf''" and h3: "''stone_grind'' \<noteq> ''pass''"
    by simp_all
  have absent: "arg_ingredients (stoneGrindCall None) = None
              \<or> arg_ingredients (stoneGrindCall None) = Some []"
    and empty: "arg_ingredients (stoneGrindCall (Some [])) = None
              \<or> arg_ingredients (stoneGrindCall (Some [])) = Some []"
    by (simp_all add: stoneGrindCall_def)
  have idli: "executeCombinationRef idliEnv = mountedResolver idliBatterService"
    and down: "executeCombinationRef downEnv = mountedResolver serviceDown"
    and unset: "executeCombinationRef unmountedEnv = None"
    by (simp_all add: idliEnv_def downEnv_def unmountedEnv_def)
  have batter: "executeCombination idliBatterService stoneGrind [] =
                  Some (Named \<lparr>name = ''Idli Batter'',
                                emoji = Some [CHR 0xF0, CHR 0x9F, CHR 0xA5, CHR 0xA3]\<rparr>)"
    and noAnswer: "executeCombination serviceDown stoneGrind [] = None"
    by (simp_all add: executeCombination_def idliBatterService_def serviceDown_def)
  have quiet: "resolverCalls smallKitchen = []" "sent smallKitchen = []"
    by (simp_all add: smallKitchen_def)
  note a = empty_request_reaches_resolver
             [OF h1 h2 h3 stoneGrind_found absent, of idliEnv "[]" smallKitchen,
              unfolded Let_def, THEN conjunct1, rule_format, OF idli]
  note b = empty_request_reaches_resolver
             [OF h1 h2 h3 stoneGrind_found empty, of downEnv "[]" smallKitchen,
              unfolded Let_def, THEN conjunct1, rule_format, OF down]
  note c = empty_request_reaches_resolver
             [OF h1 h2 h3 stoneGrind_found absent, of unmountedEnv "[]" smallKitchen,
              unfolded Let_def, THEN conjunct2, rule_format, OF unset]
  from a have r1: "resolverCalls (handleApprovedFunctionCalls idliEnv [stoneGrindCall None] smallKitchen)
     = [(stoneGrind, [])]"
    by (simp add: quiet batter)
  from a have r2: "sent (handleApprovedFunctionCalls idliEnv [stoneGrindCall None] smallKitchen)
     = [FunctionResponse ''stone_grind''
          (SuccessResult (Some ''Idli Batter'') (Some [CHR 0xF0, CHR 0x9F, CHR 0xA5, CHR 0xA3]))]"
    by (simp add: quiet batter producedName_def producedEmoji_def)
  from b have r3: "resolverCalls (handleApprovedFunctionCalls downEnv [stoneGrindCall (Some [])] smallKitchen)
     = [(stoneGrind, [])]"
    by (simp add: quiet noAnswer)
  from b have r4: "sent (handleApprovedFunctionCalls downEnv [stoneGrindCall (Some [])] smallKitchen)
     = [FunctionResponse ''stone_grind''
          (SuccessResult (Some ''stone grinded items'')
             (Some [CHR 0xF0, CHR 0x9F, CHR 0xAA, CHR 0xA8]))]"
    by (simp add: quiet noAnswer producedName_def producedEmoji_def stoneGrind_fallback)
  from c have r5: "resolverCalls (handleApprovedFunctionCalls unmountedEnv [stoneGrindCall None] smallKitchen)
     = []"
    by (simp add: quiet)
  from r1 r2 r3 r4 r5 show ?thesis by blast
qed

text \<open>
  Passing with both orders in progress.
\<close>

theorem pass_abandons_witness:
  "fc_name passCallRequest = Some ''pass''
   \<and> length (orders (handleApprovedFunctionCalls downEnv [passCallRequest] busyKitchen)) = 2
   \<and> orders (handleApprovedFunctionCalls downEnv [passCallRequest] busyKitchen) ! 0
       = filterCoffee\<lparr>status := failed, servedDish := Some ''Vanished''\<rparr>
   \<and> orders (handleApprovedFunctionCalls downEnv [passCallRequest] busyKitchen) ! 1
       = masalaDosa\<lparr>status := failed, servedDish := Some ''Vanished''\<rparr>
   \<and> sent (handleApprovedFunctionCalls downEnv [passCallRequest] busyKitchen)
       = [FunctionResponse ''pass'' (SuccessMessage ''Order abandoned.'')]
   \<and> resolverCalls (handleApprovedFunctionCalls downEnv [passCallRequest] busyKitchen) = []"
proof -
  have h: "fc_name passCallRequest = Some ''pass''"
    by (simp add: passCallRequest_def)
  note inst = pass_abandons [OF h, of downEnv "[]" busyKitchen, unfolded Let_def]
  have ords: "orders busyKitchen = [filterCoffee\<lparr>status := in_progress\<rparr>,
                                    masalaDosa\<lparr>status := in_progress\<rparr>]"
    by (simp add: busyKitchen_def smallKitchen_def)
  have quiet: "sent busyKitchen = []" "resolverCalls busyKitchen = []"
    by (simp_all add: busyKitchen_def smallKitchen_def)
  from inst have "length (orders (handleApprovedFunctionCalls downEnv [passCallRequest] busyKitchen))
                    = length (orders busyKitchen)"
    by blast
  then have len: "length (orders (handleApprovedFunctionCalls downEnv [passCallRequest] busyKitchen)) = 2"
    by (simp add: ords)
  from inst have each: "\<forall>k < length (orders busyKitchen).
             (status (orders busyKitchen ! k) = in_progress \<longrightarrow>
                orders (handleApprovedFunctionCalls downEnv [passCallRequest] busyKitchen) ! k
                  = (orders busyKitchen ! k)\<lparr>status := failed, servedDish := Some ''Vanished''\<rparr>)"
    by blast
  from each have o0: "orders (handleApprovedFunctionCalls downEnv [passCallRequest] busyKitchen) ! 0
       = filterCoffee\<lparr>status := failed, servedDish := Some ''Vanished''\<rparr>"
    by (simp add: ords)
  from each have "1 < length (orders busyKitchen) \<longrightarrow>
             (status (orders busyKitchen ! 1) = in_progress \<longrightarrow>
                orders (handleApprovedFunctionCalls downEnv [passCallRequest] busyKitchen) ! 1
                  = (orders busyKitchen ! 1)\<lparr>status := failed, servedDish := Some ''Vanished''\<rparr>)"
    by blast
  then have o1: "orders (handleApprovedFunctionCalls downEnv [passCallRequest] busyKitchen) ! 1
       = masalaDosa\<lparr>status := failed, servedDish := Some ''Vanished''\<rparr>"
    by (simp add: ords)
  from inst have "sent (handleApprovedFunctionCalls downEnv [passCallRequest] busyKitchen)
       = sent busyKitchen @ [FunctionResponse ''pass'' (SuccessMessage ''Order abandoned.'')]"
    by blast
  then have s: "sent (handleApprovedFunctionCalls downEnv [passCallRequest] busyKitchen)
       = [FunctionResponse ''pass'' (SuccessMessage ''Order abandoned.'')]"
    by (simp add: quiet)
  from inst have "resolverCalls (handleApprovedFunctionCalls downEnv [passCallRequest] busyKitchen)
       = resolverCalls busyKitchen"
    by blast
  then have r: "resolverCalls (handleApprovedFunctionCalls downEnv [passCallRequest] busyKitchen) = []"
    by (simp add: quiet)
  from h len o0 o1 s r show ?thesis by blast
qed

text \<open>
  Serving without a dish when no order is in progress, and with the empty string when two are.
\<close>

theorem serve_default_dish_witness:
  "sent (handleApprovedFunctionCalls downEnv [serveCallRequest None] smallKitchen)
     = [FunctionResponse ''serve_on_leaf'' (SuccessMessage ''dish served! Romba nalla iruku!'')]
   \<and> sent (handleApprovedFunctionCalls downEnv [serveCallRequest (Some [])] busyKitchen)
     = [FunctionResponse ''serve_on_leaf'' (Failure ''dish is not what was ordered. Try again!'')]
   \<and> verifierCalls (handleApprovedFunctionCalls downEnv [serveCallRequest (Some [])] busyKitchen)
     = [verificationPrompt filterCoffee ''dish'', verificationPrompt masalaDosa ''dish'']"
proof -
  let ?serving = "narration (''serve-'' @ show_nat (now downEnv)) (now downEnv)
                    (plate @ '' Serving on Banana Leaf: dish'')"
  have h1: "fc_name (serveCallRequest d) = Some ''serve_on_leaf''" for d
    by (simp add: serveCallRequest_def)
  have absent: "arg_dish (serveCallRequest None) = None \<or> arg_dish (serveCallRequest None) = Some []"
    and empty: "arg_dish (serveCallRequest (Some [])) = None
              \<or> arg_dish (serveCallRequest (Some [])) = Some []"
    by (simp_all add: serveCallRequest_def)
  note idle = serve_default_dish [OF h1 absent, of downEnv "[]" smallKitchen, unfolded Let_def]
  note busy = serve_default_dish [OF h1 empty, of downEnv "[]" busyKitchen, unfolded Let_def]
  have v1: "fst (handleVerifyServedDish (verifyServedDishRef downEnv) (vnow downEnv) ''dish''
                   (smallKitchen\<lparr>timeline := timeline smallKitchen @ [?serving]\<rparr>))"
    and s1: "sent (snd (handleVerifyServedDish (verifyServedDishRef downEnv) (vnow downEnv) ''dish''
                   (smallKitchen\<lparr>timeline := timeline smallKitchen @ [?serving]\<rparr>))) = []"
    by code_simp+
  have v2: "\<not> fst (handleVerifyServedDish (verifyServedDishRef downEnv) (vnow downEnv) ''dish''
                   (busyKitchen\<lparr>timeline := timeline busyKitchen @ [?serving]\<rparr>))"
    and s2: "sent (snd (handleVerifyServedDish (verifyServedDishRef downEnv) (vnow downEnv) ''dish''
                   (busyKitchen\<lparr>timeline := timeline busyKitchen @ [?serving]\<rparr>))) = []"
    by code_simp+
  from idle have "sent (handleApprovedFunctionCalls downEnv [serveCallRequest None] smallKitchen)
     = sent (snd (handleVerifyServedDish (verifyServedDishRef downEnv) (vnow downEnv) ''dish''
                   (smallKitchen\<lparr>timeline := timeline smallKitchen @ [?serving]\<rparr>))) @
       [FunctionResponse ''serve_on_leaf''
          (if fst (handleVerifyServedDish (verifyServedDishRef downEnv) (vnow downEnv) ''dish''
                   (smallKitchen\<lparr>timeline := timeline smallKitchen @ [?serving]\<rparr>))
           then SuccessMessage ''dish served! Romba nalla iruku!''
           else Failure ''dish is not what was ordered. Try again!'')]"
    by blast
  then have r1: "sent (handleApprovedFunctionCalls downEnv [serveCallRequest None] smallKitchen)
     = [FunctionResponse ''serve_on_leaf'' (SuccessMessage ''dish served! Romba nalla iruku!'')]"
    unfolding s1 using v1 by simp
  from busy have "sent (handleApprovedFunctionCalls downEnv [serveCallRequest (Some [])] busyKitchen)
     = sent (snd (handleVerifyServedDish (verifyServedDishRef downEnv) (vnow downEnv) ''dish''
                   (busyKitchen\<lparr>timeline := timeline busyKitchen @ [?serving]\<rparr>))) @
       [FunctionResponse ''serve_on_leaf''
          (if fst (handleVerifyServedDish (verifyServedDishRef downEnv) (vnow downEnv) ''dish''
                   (busyKitchen\<lparr>timeline := timeline busyKitchen @ [?serving]\<rparr>))
           then SuccessMessage ''dish served! Romba nalla iruku!''
           else Failure ''dish is not what was ordered. Try again!'')]"
    by blast
  then have r2: "sent (handleApprovedFunctionCalls downEnv [serveCallRequest (Some [])] busyKitchen)
     = [FunctionResponse ''serve_on_leaf'' (Failure ''dish is not what was ordered. Try again!'')]"
    unfolding s2 using v2 by simp
  have r3: "verifierCalls (handleApprovedFunctionCalls downEnv [serveCallRequest (Some [])] busyKitchen)
     = [verificationPrompt filterCoffee ''dish'', verificationPrompt masalaDosa ''dish'']"
    by code_simp
  from r1 r2 r3 show ?thesis by blast
qed


end
